theory Spec2Isabelle
  imports Main "HOL-Library.Sublist"
begin

section \<open>Python dictionaries\<close>

text \<open>
  A Python \<^verbatim>\<open>dict\<close> keeps its keys in insertion order, and the loops of
  \<^verbatim>\<open>fastNLP/core/losses.py\<close> depend on that order (the order of the reported
  key lists, which entry of a reversed map survives).  A dictionary is therefore a list
  of key/value pairs; \<open>dict_update\<close> is \<^verbatim>\<open>d.update({k: v})\<close>: an existing key keeps
  its position and gets the new value, a new key goes to the end.
\<close>

type_synonym ('k, 'v) dict = "('k \<times> 'v) list"

definition dict_keys :: "('k, 'v) dict \<Rightarrow> 'k list" where
  "dict_keys d = map fst d"

definition dict_has :: "'k \<Rightarrow> ('k, 'v) dict \<Rightarrow> bool" where
  "dict_has k d \<longleftrightarrow> k \<in> set (dict_keys d)"

fun dict_get :: "('k, 'v) dict \<Rightarrow> 'k \<Rightarrow> 'v option" where
  "dict_get [] k = None"
| "dict_get ((k', v) # d) k = (if k' = k then Some v else dict_get d k)"

fun dict_update :: "'k \<Rightarrow> 'v \<Rightarrow> ('k, 'v) dict \<Rightarrow> ('k, 'v) dict" where
  "dict_update k v [] = [(k, v)]"
| "dict_update k v ((k', v') # d) =
     (if k' = k then (k, v) # d else (k', v') # dict_update k v d)"

text \<open>\<^verbatim>\<open>for keys, val in src.items(): dst.update({keys: val})\<close>\<close>

fun update_all :: "('k, 'v) dict \<Rightarrow> ('k, 'v) dict \<Rightarrow> ('k, 'v) dict" where
  "update_all [] dst = dst"
| "update_all ((k, v) # src) dst = update_all src (dict_update k v dst)"

section \<open>Values and exceptions\<close>

text \<open>
  The values that travel through the dictionaries and come back from a loss function:
  a \<^verbatim>\<open>torch.Tensor\<close> with its \<^verbatim>\<open>size()\<close> and an identifier standing for its
  contents, \<^verbatim>\<open>None\<close>, or some other object.
\<close>

datatype pyval = Tensor (tsize: "nat list") (tdata: nat) | PyNone | PyObject nat

text \<open>
  Modelled from the spec: \<^verbatim>\<open>CheckRes\<close> and \<^verbatim>\<open>CheckError\<close> are declared in
  \<^verbatim>\<open>fastNLP.core.utils\<close>, which is not among the sources.  \<^verbatim>\<open>CheckRes\<close> is a
  named tuple of six key lists, the six that \<^verbatim>\<open>LossInForward.get_loss\<close> passes, and none
  of them has a default.  \<^verbatim>\<open>CheckError\<close> carries the \<^verbatim>\<open>CheckRes\<close> and the signature
  string.
\<close>

datatype check_res = CheckRes
  (missing: "string list") (unused: "string list") (duplicated: "string list")
  (required: "string list") (all_needed: "string list") (varargs: "string list")

datatype exn =
    RuntimeError
  | TypeError
  | KeyError string
  | NotImplementedError
  | CheckError check_res string
  | Raised nat

text \<open>
  The constructor call \<^verbatim>\<open>CheckRes(missing=..., unused=..., ...)\<close> with keyword
  arguments: a field that is not passed is \<open>None\<close> here, and the call raises
  \<^verbatim>\<open>TypeError\<close> for it.
\<close>

fun new_CheckRes ::
  "string list option \<Rightarrow> string list option \<Rightarrow> string list option \<Rightarrow> string list option
     \<Rightarrow> string list option \<Rightarrow> string list option \<Rightarrow> exn + check_res" where
  "new_CheckRes (Some m) (Some u) (Some d) (Some r) (Some a) (Some v) = Inr (CheckRes m u d r a v)"
| "new_CheckRes m u d r a v = Inl TypeError"

section \<open>Loss functions and their argument lists\<close>

text \<open>
  Modelled from the spec: \<^verbatim>\<open>_get_arg_list\<close> and \<^verbatim>\<open>get_func_signature\<close> live in
  \<^verbatim>\<open>fastNLP.core.utils\<close>, which is not among the sources.  What they return for a
  loss function is taken as data of that function: the five results that
  \<^verbatim>\<open>__call__\<close> unpacks (the names of the formal arguments without default, the names
  of the keyword-defaulted arguments, their default values, the name of \<^verbatim>\<open>*args\<close> and
  of \<^verbatim>\<open>**kwargs\<close>, each \<^verbatim>\<open>None\<close> when absent), and the signature string.
  \<open>run\<close> is the call \<^verbatim>\<open>get_loss(**param_value)\<close> itself, which returns or raises.
\<close>

record arg_list =
  al_args :: "string list option"
  al_defaults :: "string list option"
  al_defaults_val :: "pyval list option"
  al_varargs :: "string option"
  al_kwargs :: "string option"

record loss_fn =
  get_arg_list :: arg_list
  get_func_signature :: string
  run :: "(string, pyval) dict \<Rightarrow> exn + pyval"

text \<open>
  Modelled from the spec: \<^verbatim>\<open>_map_args(maps, **kwargs)\<close> (\<^verbatim>\<open>fastNLP.core.utils\<close>,
  not among the sources) renames the keys of the value dictionary: a key found in \<open>maps\<close>
  is stored under the name \<open>maps\<close> gives it, any other key under its own name.  The value
  dictionary is spread into the keywords of the call, so a key \<^verbatim>\<open>"maps"\<close> collides with
  the first parameter and the call raises \<^verbatim>\<open>TypeError\<close>.
\<close>

fun map_args_loop ::
  "(string, string) dict \<Rightarrow> (string, pyval) dict \<Rightarrow> (string, pyval) dict \<Rightarrow> (string, pyval) dict" where
  "map_args_loop maps [] output = output"
| "map_args_loop maps ((name, val) # kwargs) output =
     map_args_loop maps kwargs
       (case dict_get maps name of
          Some new_name \<Rightarrow> dict_update new_name val output
        | None \<Rightarrow> dict_update name val output)"

definition map_args ::
  "(string, string) dict \<Rightarrow> (string, pyval) dict \<Rightarrow> exn + (string, pyval) dict" where
  "map_args maps kwargs =
     (if dict_has ''maps'' kwargs then Inl TypeError
      else Inr (map_args_loop maps kwargs []))"

text \<open>
  Modelled from the spec: \<^verbatim>\<open>_build_args(func, **kwargs)\<close> (\<^verbatim>\<open>fastNLP.core.utils\<close>,
  not among the sources) builds the keyword arguments the function is invoked with:
  everything when the function takes \<^verbatim>\<open>**kwargs\<close>; otherwise the default values of the
  keyword-defaulted arguments, overridden and completed by the entries whose name is an
  argument of the function.  The renamed dictionary is spread into the keywords of the call,
  so a key \<^verbatim>\<open>"func"\<close> collides with the first parameter and the call raises
  \<^verbatim>\<open>TypeError\<close>.
\<close>

definition build_args_body :: "arg_list \<Rightarrow> (string, pyval) dict \<Rightarrow> (string, pyval) dict" where
  "build_args_body al kwargs =
     (if al_kwargs al \<noteq> None then kwargs
      else
        let names = (case al_args al of None \<Rightarrow> [] | Some a \<Rightarrow> a) @
                    (case al_defaults al of None \<Rightarrow> [] | Some d \<Rightarrow> d);
            output = update_all
                       (zip (case al_defaults al of None \<Rightarrow> [] | Some d \<Rightarrow> d)
                            (case al_defaults_val al of None \<Rightarrow> [] | Some v \<Rightarrow> v)) []
        in update_all (filter (\<lambda>(name, val). name \<in> set names) kwargs) output)"

definition build_args :: "arg_list \<Rightarrow> (string, pyval) dict \<Rightarrow> exn + (string, pyval) dict" where
  "build_args al kwargs =
     (if dict_has ''func'' kwargs then Inl TypeError
      else Inr (build_args_body al kwargs))"

section \<open>LossBase\<close>

record loss_base =
  param_map :: "(string, string) dict"
  checked :: bool
  get_loss :: loss_fn

text \<open>\<^verbatim>\<open>LossBase.__init__\<close>, with the \<^verbatim>\<open>get_loss\<close> the subclass installs.\<close>

definition LossBase_init :: "loss_fn \<Rightarrow> loss_base" where
  "LossBase_init f = \<lparr>param_map = [], checked = False, get_loss = f\<rparr>"

text \<open>
  \<^verbatim>\<open>for keys in args: if keys not in param_map: param_map.update({keys: keys})\<close>
\<close>

fun add_self_mapped :: "string list \<Rightarrow> (string, string) dict \<Rightarrow> (string, string) dict" where
  "add_self_mapped [] pmap = pmap"
| "add_self_mapped (keys # rest) pmap =
     add_self_mapped rest
       (if \<not> dict_has keys pmap then dict_update keys keys pmap else pmap)"

text \<open>\<^verbatim>\<open>{val: key for key, val in param_map.items()}\<close>\<close>

fun reversed_loop :: "(string, string) dict \<Rightarrow> (string, string) dict \<Rightarrow> (string, string) dict" where
  "reversed_loop [] acc = acc"
| "reversed_loop ((key, val) # items) acc = reversed_loop items (dict_update val key acc)"

definition reversed_map :: "(string, string) dict \<Rightarrow> (string, string) dict" where
  "reversed_map pmap = reversed_loop pmap []"

text \<open>
  \<^verbatim>\<open>for keys, val in output_dict.items(): if keys in target_dict.keys(): duplicated.append(keys)\<close>
\<close>

fun find_duplicated ::
  "(string, pyval) dict \<Rightarrow> (string, pyval) dict \<Rightarrow> string list \<Rightarrow> string list" where
  "find_duplicated [] target_dict dup = dup"
| "find_duplicated ((keys, val) # items) target_dict dup =
     find_duplicated items target_dict
       (if dict_has keys target_dict then dup @ [keys] else dup)"

text \<open>
  \<^verbatim>\<open>for keys in args: if param_map[keys] not in param_val_dict.keys(): missing.append(keys)\<close>;
  the subscript raises \<^verbatim>\<open>KeyError\<close> on a name that is not a key of \<open>param_map\<close>.
\<close>

fun find_missing ::
  "string list \<Rightarrow> (string, string) dict \<Rightarrow> (string, pyval) dict \<Rightarrow> string list \<Rightarrow> exn + string list" where
  "find_missing [] pmap param_val_dict miss = Inr miss"
| "find_missing (keys # rest) pmap param_val_dict miss =
     (case dict_get pmap keys of
        None \<Rightarrow> Inl (KeyError keys)
      | Some name \<Rightarrow>
          find_missing rest pmap param_val_dict
            (if \<not> dict_has name param_val_dict then miss @ [keys] else miss))"

text \<open>The test on the value of \<^verbatim>\<open>get_loss\<close> that ends \<^verbatim>\<open>LossBase.__call__\<close>.\<close>

definition is_tensor :: "pyval \<Rightarrow> bool" where
  "is_tensor v = (case v of Tensor sz d \<Rightarrow> True | _ \<Rightarrow> False)"

definition check_loss :: "pyval \<Rightarrow> exn + pyval" where
  "check_loss loss =
     (if \<not> (is_tensor loss \<and> length (tsize loss) = 0) then
        (if \<not> is_tensor loss then Inl RuntimeError else Inl RuntimeError)
      else Inr loss)"

text \<open>
  \<^verbatim>\<open>LossBase.__call__(output_dict, target_dict, force_check)\<close> up to the line that
  builds \<^verbatim>\<open>param_value\<close>: the keyword arguments \<^verbatim>\<open>get_loss\<close> is about to be invoked
  with, or the exception raised before that, and the instance as these lines leave it.
  The \<^verbatim>\<open>CheckRes\<close> of line 74 is built from five keywords, without \<^verbatim>\<open>varargs\<close>.
\<close>

definition LossBase_param_value ::
  "loss_base \<Rightarrow> (string, pyval) dict \<Rightarrow> (string, pyval) dict \<Rightarrow> bool
     \<Rightarrow> (exn + (string, pyval) dict) \<times> loss_base" where
  "LossBase_param_value self output_dict target_dict force_check =
     (let al = get_arg_list (get_loss self) in
      if al_varargs al \<noteq> None then (Inl RuntimeError, self)
      else
        case al_args al of
          None \<Rightarrow> (Inl RuntimeError, self)
        | Some args \<Rightarrow>
            let self1 = self\<lparr>checked := checked self \<and> \<not> force_check\<rparr>;
                pmap = (if \<not> checked self1 then
                          (let pmap1 = add_self_mapped args (param_map self1) in
                           case al_defaults al of
                             None \<Rightarrow> pmap1
                           | Some defaults \<Rightarrow> add_self_mapped defaults pmap1)
                        else param_map self1);
                self2 = self1\<lparr>param_map := pmap\<rparr>;
                reversed_param_map = reversed_map pmap;
                dup = (if \<not> checked self2
                       then find_duplicated output_dict target_dict [] else []);
                param_val_dict = update_all target_dict (update_all output_dict [])
            in
              (case (if \<not> checked self2 then find_missing args pmap param_val_dict []
                     else Inr []) of
                Inl e \<Rightarrow> (Inl e, self2)
              | Inr miss \<Rightarrow>
                  if length dup > 0 \<or> length miss > 0 then
                    (case new_CheckRes (Some miss) (Some []) (Some dup) (Some []) (Some []) None of
                       Inl e \<Rightarrow> Inl e
                     | Inr check_res \<Rightarrow>
                         Inl (CheckError check_res (get_func_signature (get_loss self))),
                     self2)
                  else
                    let self3 = self2\<lparr>checked := True\<rparr>
                    in (case map_args reversed_param_map param_val_dict of
                          Inl e \<Rightarrow> Inl e
                        | Inr param_map_val \<Rightarrow> build_args al param_map_val,
                        self3)))"

text \<open>
  The whole of \<^verbatim>\<open>LossBase.__call__\<close>: \<^verbatim>\<open>get_loss\<close> is invoked with
  \<^verbatim>\<open>param_value\<close> and its value is tested before it is returned.
\<close>

definition LossBase_call ::
  "loss_base \<Rightarrow> (string, pyval) dict \<Rightarrow> (string, pyval) dict \<Rightarrow> bool
     \<Rightarrow> (exn + pyval) \<times> loss_base" where
  "LossBase_call self output_dict target_dict force_check =
     (case LossBase_param_value self output_dict target_dict force_check of
        (Inl e, self') \<Rightarrow> (Inl e, self')
      | (Inr param_value, self') \<Rightarrow>
          (case run (get_loss self') param_value of
             Inl e \<Rightarrow> (Inl e, self')
           | Inr loss \<Rightarrow> (check_loss loss, self')))"

section \<open>NewLoss\<close>

text \<open>
  \<^verbatim>\<open>NewLoss.__init__(func, key_map=None, **kwargs)\<close>.  \<open>func\<close> is a function and
  \<open>key_map\<close>, when given, a dictionary of names, so the two type tests pass.
\<close>

definition NewLoss_init ::
  "loss_fn \<Rightarrow> (string, string) dict option \<Rightarrow> (string, string) dict \<Rightarrow> loss_base" where
  "NewLoss_init func key_map kwargs =
     (let self = LossBase_init func;
          self = (case key_map of None \<Rightarrow> self | Some m \<Rightarrow> self\<lparr>param_map := m\<rparr>);
          self = (if length kwargs > 0
                  then self\<lparr>param_map := update_all kwargs (param_map self)\<rparr> else self)
      in self\<lparr>get_loss := func\<rparr>)"

section \<open>LossInForward\<close>

text \<open>
  \<^verbatim>\<open>LossInForward.get_loss(self, **kwargs)\<close> for an instance with the given
  \<^verbatim>\<open>loss_key\<close>; \<open>sig\<close> is the string \<^verbatim>\<open>get_func_signature(self.get_loss)\<close>.  The
  method has no \<^verbatim>\<open>return\<close> statement.
\<close>

definition LossInForward_get_loss :: "string \<Rightarrow> string \<Rightarrow> (string, pyval) dict \<Rightarrow> exn + pyval" where
  "LossInForward_get_loss loss_key sig kwargs =
     (if \<not> dict_has loss_key kwargs then
        (case new_CheckRes (Some [loss_key]) (Some []) (Some []) (Some []) (Some []) (Some []) of
           Inl e \<Rightarrow> Inl e
         | Inr check_res \<Rightarrow> Inl (CheckError check_res sig))
      else Inr PyNone)"

text \<open>
  \<^verbatim>\<open>LossInForward.__call__(output_dict, predict_dict, force_check)\<close>.  The call
  \<^verbatim>\<open>self.get_loss(**output_dict)\<close> spreads the dictionary into the keywords of a bound
  method: a key \<^verbatim>\<open>"self"\<close> collides with its first parameter and the call raises
  \<^verbatim>\<open>TypeError\<close> before the body runs.
\<close>

definition LossInForward_call ::
  "string \<Rightarrow> string \<Rightarrow> (string, pyval) dict \<Rightarrow> (string, pyval) dict \<Rightarrow> bool \<Rightarrow> exn + pyval" where
  "LossInForward_call loss_key sig output_dict predict_dict force_check =
     (case (if dict_has ''self'' output_dict then Inl TypeError
            else LossInForward_get_loss loss_key sig output_dict) of
        Inl e \<Rightarrow> Inl e
      | Inr loss \<Rightarrow>
          if \<not> (is_tensor loss \<and> length (tsize loss) = 0) then
            (if \<not> is_tensor loss then Inl TypeError else Inl RuntimeError)
          else Inr loss)"

section \<open>Loss\<close>

subsection \<open>Pre-processing functions\<close>

text \<open>
  The functions a \<^verbatim>\<open>pre_pro\<close> list can hold: the four that \<^verbatim>\<open>losses.py\<close> defines on
  top of torch (\<open>mask_fn\<close> is \<^verbatim>\<open>mask\<close>), and functions of the user.  What a function computes from
  \<^verbatim>\<open>(predict, truth, **kwargs)\<close> is tensor arithmetic of torch; it is a parameter
  \<open>apply_pre\<close> of the operations below.
\<close>

datatype prefn = squash | unpad | unpad_mask | mask_fn | UserFn nat

text \<open>
  An argument given where a function or a string is expected: a callable, a string,
  another hashable object, or an object that cannot be hashed (a list, a dictionary, a set).
\<close>

datatype pyarg = Callable prefn | Str string | Other pyval | Unhashable nat

definition method_dict :: "(string, prefn) dict" where
  "method_dict =
     [(''squash'', squash),
      (''unpad'', unpad),
      (''unpad_mask'', unpad_mask),
      (''mask'', mask_fn)]"

text \<open>
  \<^verbatim>\<open>method_dict.get(f)\<close>: only a string can equal a key of \<open>method_dict\<close>, and the
  lookup of an object that cannot be hashed raises \<^verbatim>\<open>TypeError\<close>.
\<close>

fun method_dict_get :: "pyarg \<Rightarrow> exn + prefn option" where
  "method_dict_get (Str name) = Inr (dict_get method_dict name)"
| "method_dict_get (Callable f) = Inr None"
| "method_dict_get (Other v) = Inr None"
| "method_dict_get (Unhashable u) = Inl TypeError"

subsection \<open>Strings\<close>

text \<open>
  A \<^verbatim>\<open>str\<close> is the list of its code points, here the code points below 256.
  \<^verbatim>\<open>str.strip()\<close> removes the white space at both ends, \<^verbatim>\<open>str.lower()\<close> maps
  every cased character to its lowercase, \<^verbatim>\<open>str.split(sep)\<close> cuts at every
  occurrence of a one-character separator, and \<^verbatim>\<open>"".join\<close> concatenates.
\<close>

definition isspace :: "char \<Rightarrow> bool" where
  "isspace c \<longleftrightarrow> (of_char c :: nat) \<in> {9, 10, 11, 12, 13, 28, 29, 30, 31, 32, 133, 160}"

definition strip :: "string \<Rightarrow> string" where
  "strip s = rev (dropWhile isspace (rev (dropWhile isspace s)))"

definition lower_char :: "char \<Rightarrow> char" where
  "lower_char c =
     (let n = (of_char c :: nat)
      in if (65 \<le> n \<and> n \<le> 90) \<or> (192 \<le> n \<and> n \<le> 222 \<and> n \<noteq> 215)
         then char_of (n + 32) else c)"

definition lower :: "string \<Rightarrow> string" where
  "lower s = map lower_char s"

fun split :: "char \<Rightarrow> string \<Rightarrow> string list" where
  "split sep [] = [[]]"
| "split sep (c # cs) =
     (if c = sep then [] # split sep cs
      else (case split sep cs of [] \<Rightarrow> [[c]] | w # ws \<Rightarrow> (c # w) # ws))"

definition join :: "string list \<Rightarrow> string" where
  "join parts = concat parts"

subsection \<open>The table of torch loss functions\<close>

datatype torch_loss =
    Torch_L1Loss | Torch_BCELoss | Torch_MSELoss | Torch_NLLLoss | Torch_KLDivLoss
  | Torch_NLLLoss2d | Torch_SmoothL1Loss | Torch_SoftMarginLoss | Torch_PoissonNLLLoss
  | Torch_MultiMarginLoss | Torch_CrossEntropyLoss | Torch_BCEWithLogitsLoss
  | Torch_MarginRankingLoss | Torch_TripletMarginLoss | Torch_HingeEmbeddingLoss
  | Torch_CosineEmbeddingLoss | Torch_MultiLabelMarginLoss | Torch_MultiLabelSoftMarginLoss

definition loss_function_name :: "(string, torch_loss) dict" where
  "loss_function_name =
     update_all
       [(lower ''L1Loss'', Torch_L1Loss),
        (lower ''BCELoss'', Torch_BCELoss),
        (lower ''MSELoss'', Torch_MSELoss),
        (lower ''NLLLoss'', Torch_NLLLoss),
        (lower ''KLDivLoss'', Torch_KLDivLoss),
        (lower ''NLLLoss2dLoss'', Torch_NLLLoss2d),
        (lower ''SmoothL1Loss'', Torch_SmoothL1Loss),
        (lower ''SoftMarginLoss'', Torch_SoftMarginLoss),
        (lower ''PoissonNLLLoss'', Torch_PoissonNLLLoss),
        (lower ''MultiMarginLoss'', Torch_MultiMarginLoss),
        (lower ''CrossEntropyLoss'', Torch_CrossEntropyLoss),
        (lower ''BCEWithLogitsLoss'', Torch_BCEWithLogitsLoss),
        (lower ''MarginRankingLoss'', Torch_MarginRankingLoss),
        (lower ''TripletMarginLoss'', Torch_TripletMarginLoss),
        (lower ''HingeEmbeddingLoss'', Torch_HingeEmbeddingLoss),
        (lower ''CosineEmbeddingLoss'', Torch_CosineEmbeddingLoss),
        (lower ''MultiLabelMarginLoss'', Torch_MultiLabelMarginLoss),
        (lower ''MultiLabelSoftMarginLoss'', Torch_MultiLabelSoftMarginLoss)] []"

subsection \<open>The class\<close>

text \<open>
  A \<^verbatim>\<open>Loss\<close> object: \<^verbatim>\<open>_loss\<close> is the torch loss object or \<^verbatim>\<open>None\<close>, and
  \<^verbatim>\<open>pre_pro\<close> the list of pre-processing functions, where an entry is \<^verbatim>\<open>None\<close> when
  \<^verbatim>\<open>__init__\<close> did not find its name in \<open>method_dict\<close>.
\<close>

record 'l loss =
  loss_obj :: "'l option"
  pre_pro :: "prefn option list"

text \<open>
  \<^verbatim>\<open>Loss._get_loss(loss_name, **kwargs)\<close>.  \<open>instantiate\<close> is the constructor call
  \<^verbatim>\<open>cls(**kwargs)\<close> of torch, which returns the loss object or raises.
\<close>

definition Loss_get_loss ::
  "(torch_loss \<Rightarrow> (string, pyval) dict \<Rightarrow> exn + 'l) \<Rightarrow> string \<Rightarrow> (string, pyval) dict \<Rightarrow> exn + 'l" where
  "Loss_get_loss instantiate loss_name kwargs =
     (let loss_name = lower (strip loss_name);
          loss_name = join (split (CHR ''_'') loss_name);
          loss_name = (if length loss_name < 4 \<or> drop (length loss_name - 4) loss_name \<noteq> ''loss''
                       then loss_name @ ''loss'' else loss_name)
      in case dict_get loss_function_name loss_name of
           None \<Rightarrow> Inl (KeyError loss_name)
         | Some cls \<Rightarrow> instantiate cls kwargs)"

text \<open>
  \<^verbatim>\<open>Loss.__init__(loss_name, pre_pro, **kwargs)\<close>; \<open>pre_pro_entry\<close> is
  \<^verbatim>\<open>f if callable(f) else method_dict.get(f)\<close>.
\<close>

definition pre_pro_entry :: "pyarg \<Rightarrow> exn + prefn option" where
  "pre_pro_entry f = (case f of Callable g \<Rightarrow> Inr (Some g) | _ \<Rightarrow> method_dict_get f)"

fun pre_pro_entries :: "pyarg list \<Rightarrow> exn + prefn option list" where
  "pre_pro_entries [] = Inr []"
| "pre_pro_entries (f # fs) =
     (case pre_pro_entry f of
        Inl e \<Rightarrow> Inl e
      | Inr g \<Rightarrow> (case pre_pro_entries fs of Inl e \<Rightarrow> Inl e | Inr gs \<Rightarrow> Inr (g # gs)))"

definition Loss_init ::
  "(torch_loss \<Rightarrow> (string, pyval) dict \<Rightarrow> exn + 'l) \<Rightarrow> pyarg \<Rightarrow> pyarg list \<Rightarrow> (string, pyval) dict
     \<Rightarrow> exn + 'l loss" where
  "Loss_init instantiate loss_name pre_pro_arg kwargs =
     (case (case loss_name of
              Other PyNone \<Rightarrow> Inr None
            | Str name \<Rightarrow>
                (case Loss_get_loss instantiate name kwargs of
                   Inl e \<Rightarrow> Inl e | Inr l \<Rightarrow> Inr (Some l))
            | _ \<Rightarrow> Inl NotImplementedError) of
        Inl e \<Rightarrow> Inl e
      | Inr l \<Rightarrow>
          (case pre_pro_entries pre_pro_arg of
             Inl e \<Rightarrow> Inl e
           | Inr fs \<Rightarrow> Inr \<lparr>loss_obj = l, pre_pro = fs\<rparr>))"

text \<open>
  \<^verbatim>\<open>Loss.add_pre_pro(func)\<close>: the object as the call leaves it, or the exception
  raised.
\<close>

definition add_pre_pro :: "'l loss \<Rightarrow> pyarg \<Rightarrow> exn + 'l loss" where
  "add_pre_pro self func =
     (case func of
        Callable f \<Rightarrow> Inr (self\<lparr>pre_pro := pre_pro self @ [Some f]\<rparr>)
      | _ \<Rightarrow>
          (case method_dict_get func of
             Inl e \<Rightarrow> Inl e
           | Inr None \<Rightarrow> Inr self
           | Inr (Some f) \<Rightarrow> Inr (self\<lparr>pre_pro := pre_pro self @ [Some f]\<rparr>)))"



section \<open>Notions used to state the properties\<close>

text \<open>
  The name a formal parameter maps to through a parameter map: the value stored under the
  parameter, or the parameter itself when the map has no entry for it.
\<close>

definition resolve :: "(string, string) dict \<Rightarrow> string \<Rightarrow> string" where
  "resolve pmap p = (case dict_get pmap p of Some name \<Rightarrow> name | None \<Rightarrow> p)"

text \<open>The merged dictionary \<^verbatim>\<open>param_val_dict\<close>: the outputs, then the targets on top.\<close>

definition merged :: "(string, pyval) dict \<Rightarrow> (string, pyval) dict \<Rightarrow> (string, pyval) dict" where
  "merged output_dict target_dict = update_all target_dict (update_all output_dict [])"

text \<open>The parameter map after the formal and the keyword-defaulted arguments were added.\<close>

definition extended_map :: "arg_list \<Rightarrow> (string, string) dict \<Rightarrow> (string, string) dict" where
  "extended_map al pmap =
     (let pmap1 = add_self_mapped (case al_args al of None \<Rightarrow> [] | Some a \<Rightarrow> a) pmap
      in case al_defaults al of None \<Rightarrow> pmap1 | Some d \<Rightarrow> add_self_mapped d pmap1)"

text \<open>All the argument names a function declares: those without and those with a default.\<close>

definition declared_names :: "arg_list \<Rightarrow> string list" where
  "declared_names al =
     (case al_args al of None \<Rightarrow> [] | Some a \<Rightarrow> a) @
     (case al_defaults al of None \<Rightarrow> [] | Some d \<Rightarrow> d)"

text \<open>The keys that occur in both dictionaries, in the order of the outputs.\<close>

definition spec_duplicated :: "(string, pyval) dict \<Rightarrow> (string, pyval) dict \<Rightarrow> string list" where
  "spec_duplicated output_dict target_dict =
     filter (\<lambda>k. k \<in> set (dict_keys target_dict)) (dict_keys output_dict)"

text \<open>
  The formal parameters whose name under the parameter map is a key of neither dictionary.
\<close>

definition spec_missing ::
  "(string, string) dict \<Rightarrow> string list \<Rightarrow> (string, pyval) dict \<Rightarrow> (string, pyval) dict \<Rightarrow> string list" where
  "spec_missing pmap args output_dict target_dict =
     filter (\<lambda>p. resolve pmap p \<notin> set (dict_keys output_dict) \<union> set (dict_keys target_dict)) args"

text \<open>Sequencing of computations that may raise.\<close>

definition then_do :: "exn + 'a \<Rightarrow> ('a \<Rightarrow> exn + 'b) \<Rightarrow> exn + 'b" where
  "then_do r f = (case r of Inl e \<Rightarrow> Inl e | Inr x \<Rightarrow> f x)"




text \<open>
  The normalised loss name as the specification describes it: surrounding white space
  stripped, lowercased, every underscore deleted; and the table key made from it.
\<close>

definition spec_normalised_name :: "string \<Rightarrow> string" where
  "spec_normalised_name name = filter (\<lambda>c. c \<noteq> CHR ''_'') (map lower_char (strip name))"

definition spec_table_key :: "string \<Rightarrow> string" where
  "spec_table_key name =
     (if length (spec_normalised_name name) < 4 \<or> \<not> suffix ''loss'' (spec_normalised_name name)
      then spec_normalised_name name @ ''loss'' else spec_normalised_name name)"

definition predefined_names :: "string list" where
  "predefined_names = [''squash'', ''unpad'', ''unpad_mask'', ''mask'']"

subsection \<open>Two loss functions to run the model on\<close>

text \<open>
  \<^verbatim>\<open>def f(pred, target): return pred\<close> and \<^verbatim>\<open>def g(pred, *rest): return pred\<close>;
  a call without a required argument raises \<^verbatim>\<open>TypeError\<close>.
\<close>

definition pred_target_loss :: loss_fn where
  "pred_target_loss =
     \<lparr>get_arg_list = \<lparr>al_args = Some [''pred'', ''target''], al_defaults = None,
                       al_defaults_val = None, al_varargs = None, al_kwargs = None\<rparr>,
      get_func_signature = ''f(pred, target)'',
      run = (\<lambda>kw. case dict_get kw ''pred'' of
                     None \<Rightarrow> Inl TypeError
                   | Some p \<Rightarrow> (case dict_get kw ''target'' of
                                   None \<Rightarrow> Inl TypeError
                                 | Some t \<Rightarrow> Inr p))\<rparr>"

definition varargs_loss :: loss_fn where
  "varargs_loss =
     \<lparr>get_arg_list = \<lparr>al_args = Some [''pred''], al_defaults = None,
                       al_defaults_val = None, al_varargs = Some ''rest'', al_kwargs = None\<rparr>,
      get_func_signature = ''g(pred, *rest)'',
      run = (\<lambda>kw. case dict_get kw ''pred'' of None \<Rightarrow> Inl TypeError | Some p \<Rightarrow> Inr p)\<rparr>"

section \<open>Facts about dictionaries\<close>

lemma dict_has_iff_get: "dict_has k d \<longleftrightarrow> dict_get d k \<noteq> None"
  by (induction d) (auto simp: dict_has_def dict_keys_def)

lemma dict_get_update: "dict_get (dict_update k v d) k' = (if k' = k then Some v else dict_get d k')"
  by (induction d) auto

lemma dict_keys_update_list:
  "dict_keys (dict_update k v d) = (if k \<in> set (dict_keys d) then dict_keys d else dict_keys d @ [k])"
proof (induction d)
  case Nil
  show ?case by (simp add: dict_keys_def)
next
  case (Cons a d)
  obtain k' v' where a: "a = (k', v')" by (cases a)
  have m: "\<And>x y. (x, y) \<in> set d \<Longrightarrow> x \<in> set (map fst d)"
    by force
  from Cons a show ?case
    by (auto simp: dict_keys_def dest: m)
qed

lemma dict_keys_update: "set (dict_keys (dict_update k v d)) = insert k (set (dict_keys d))"
  by (auto simp: dict_keys_update_list)

lemma dict_update_absent: "\<not> dict_has k d \<Longrightarrow> dict_update k v d = d @ [(k, v)]"
  by (induction d) (auto simp: dict_has_def dict_keys_def)

lemma distinct_dict_update: "distinct (dict_keys d) \<Longrightarrow> distinct (dict_keys (dict_update k v d))"
  by (simp add: dict_keys_update_list)

lemma dict_keys_update_all:
  "set (dict_keys (update_all src dst)) = set (dict_keys src) \<union> set (dict_keys dst)"
proof (induction src dst rule: update_all.induct)
  case (1 dst)
  show ?case by (simp add: dict_keys_def)
next
  case (2 k v src dst)
  have "dict_keys ((k, v) # src) = k # dict_keys src" by (simp add: dict_keys_def)
  with 2 show ?case by (simp add: dict_keys_update)
qed

lemma distinct_update_all: "distinct (dict_keys dst) \<Longrightarrow> distinct (dict_keys (update_all src dst))"
  by (induction src dst rule: update_all.induct) (auto simp: distinct_dict_update)

lemma dict_get_update_all_absent:
  "k \<notin> set (dict_keys src) \<Longrightarrow> dict_get (update_all src dst) k = dict_get dst k"
  by (induction src dst rule: update_all.induct) (auto simp: dict_get_update dict_keys_def)

lemma dict_get_update_all_distinct:
  "distinct (dict_keys src) \<Longrightarrow>
   dict_get (update_all src dst) k = (case dict_get src k of Some v \<Rightarrow> Some v | None \<Rightarrow> dict_get dst k)"
proof (induction src dst rule: update_all.induct)
  case (1 dst)
  show ?case by simp
next
  case (2 k' v src dst)
  then have d: "distinct (dict_keys src)" and n: "k' \<notin> set (dict_keys src)"
    by (auto simp: dict_keys_def)
  show ?case
  proof (cases "k' = k")
    case True
    with n show ?thesis by (simp add: dict_get_update_all_absent dict_get_update)
  next
    case False
    with 2 d show ?thesis by (simp add: dict_get_update split: option.splits)
  qed
qed

lemma add_self_mapped_get:
  "dict_get (add_self_mapped ks pmap) k =
     (case dict_get pmap k of Some n \<Rightarrow> Some n | None \<Rightarrow> if k \<in> set ks then Some k else None)"
  by (induction ks pmap rule: add_self_mapped.induct)
     (auto simp: dict_get_update dict_has_iff_get split: option.splits)

lemma add_self_mapped_prefix: "\<exists>zs. add_self_mapped ks pmap = pmap @ zs"
proof (induction ks pmap rule: add_self_mapped.induct)
  case (1 pmap)
  show ?case by simp
next
  case (2 keys rest pmap)
  then show ?case by (cases "dict_has keys pmap") (auto simp: dict_update_absent)
qed

lemma find_duplicated_filter:
  "find_duplicated items target_dict dup =
     dup @ filter (\<lambda>k. k \<in> set (dict_keys target_dict)) (dict_keys items)"
  by (induction items target_dict dup rule: find_duplicated.induct)
     (auto simp: dict_keys_def dict_has_def)

lemma find_missing_filter:
  "\<forall>k \<in> set ks. dict_has k pmap \<Longrightarrow>
   find_missing ks pmap pvd miss =
     Inr (miss @ filter (\<lambda>k. resolve pmap k \<notin> set (dict_keys pvd)) ks)"
proof (induction ks pmap pvd miss rule: find_missing.induct)
  case (1 pmap pvd miss)
  show ?case by simp
next
  case (2 keys rest pmap pvd miss)
  then obtain name where n: "dict_get pmap keys = Some name"
    by (auto simp: dict_has_iff_get)
  with 2 show ?case
    by (simp add: resolve_def dict_has_def)
qed

section \<open>Facts about the loops of LossBase\<close>

lemma dict_keys_Nil: "dict_keys [] = []"
  by (simp add: dict_keys_def)

lemma merged_keys: "set (dict_keys (merged out tgt)) = set (dict_keys out) \<union> set (dict_keys tgt)"
  by (auto simp: merged_def dict_keys_update_all dict_keys_Nil)

lemma extended_map_get:
  "al_args al = Some args \<Longrightarrow>
   dict_get (extended_map al pmap) k =
     (case dict_get pmap k of
        Some n \<Rightarrow> Some n
      | None \<Rightarrow> if k \<in> set args \<union> (case al_defaults al of None \<Rightarrow> {} | Some d \<Rightarrow> set d)
                then Some k else None)"
  by (auto simp: extended_map_def add_self_mapped_get split: option.splits)

lemma extended_map_resolve:
  "al_args al = Some args \<Longrightarrow> p \<in> set args \<Longrightarrow>
   resolve (extended_map al pmap) p = resolve pmap p"
  by (simp add: resolve_def extended_map_get split: option.splits)

lemma extended_map_has:
  "al_args al = Some args \<Longrightarrow> p \<in> set args \<Longrightarrow> dict_has p (extended_map al pmap)"
  by (simp add: dict_has_iff_get extended_map_get split: option.splits)

lemma param_value_checking:
  assumes v: "al_varargs (get_arg_list (get_loss s)) = None"
    and a: "al_args (get_arg_list (get_loss s)) = Some args"
    and c: "\<not> (checked s \<and> \<not> fc)"
  shows "LossBase_param_value s out tgt fc =
     (let pmap = extended_map (get_arg_list (get_loss s)) (param_map s);
          dup = spec_duplicated out tgt;
          miss = spec_missing (param_map s) args out tgt
      in if dup \<noteq> [] \<or> miss \<noteq> [] then
           (Inl TypeError, s\<lparr>checked := False, param_map := pmap\<rparr>)
         else
           (then_do (map_args (reversed_map pmap) (merged out tgt))
              (build_args (get_arg_list (get_loss s))),
            s\<lparr>checked := True, param_map := pmap\<rparr>))"
proof -
  let ?al = "get_arg_list (get_loss s)"
  let ?pm = "extended_map ?al (param_map s)"
  have pm: "(case al_defaults ?al of None \<Rightarrow> add_self_mapped args (param_map s)
             | Some d \<Rightarrow> add_self_mapped d (add_self_mapped args (param_map s))) = ?pm"
    using a by (simp add: extended_map_def Let_def)
  have has: "\<forall>k \<in> set args. dict_has k ?pm"
    using a by (simp add: extended_map_has)
  have "filter (\<lambda>k. resolve ?pm k \<notin> set (dict_keys (merged out tgt))) args
        = spec_missing (param_map s) args out tgt"
    unfolding spec_missing_def merged_keys
    by (rule filter_cong) (simp_all add: extended_map_resolve [OF a])
  then have miss: "find_missing args ?pm (merged out tgt) [] = Inr (spec_missing (param_map s) args out tgt)"
    using find_missing_filter [OF has, of "merged out tgt" "[]"] by simp
  have dup: "find_duplicated out tgt [] = spec_duplicated out tgt"
    by (simp add: find_duplicated_filter spec_duplicated_def)
  show ?thesis
    using v a c
    by (simp add: LossBase_param_value_def Let_def pm miss [unfolded merged_def] dup merged_def
        then_do_def)
qed

lemma param_value_skipping:
  assumes v: "al_varargs (get_arg_list (get_loss s)) = None"
    and a: "al_args (get_arg_list (get_loss s)) = Some args"
    and c: "checked s" "\<not> fc"
  shows "LossBase_param_value s out tgt fc =
     (then_do (map_args (reversed_map (param_map s)) (merged out tgt))
        (build_args (get_arg_list (get_loss s))), s)"
  using v a c by (simp add: LossBase_param_value_def Let_def merged_def then_do_def)

lemma param_value_run_indep:
  "fst (LossBase_param_value (s\<lparr>get_loss := (get_loss s)\<lparr>run := r\<rparr>\<rparr>) out tgt fc)
     = fst (LossBase_param_value s out tgt fc)"
  by (simp add: LossBase_param_value_def Let_def split: option.splits sum.splits)

lemma call_of_param_value_Inl:
  "LossBase_param_value s out tgt fc = (Inl e, s') \<Longrightarrow> LossBase_call s out tgt fc = (Inl e, s')"
  by (simp add: LossBase_call_def)

lemma call_fst_of_param_value_Inl:
  "fst (LossBase_param_value s out tgt fc) = Inl e \<Longrightarrow> fst (LossBase_call s out tgt fc) = Inl e"
  by (cases "LossBase_param_value s out tgt fc") (simp add: LossBase_call_def)

lemma call_of_param_value_Inr:
  "LossBase_param_value s out tgt fc = (Inr pv, s') \<Longrightarrow>
   LossBase_call s out tgt fc =
     (case run (get_loss s') pv of Inl e \<Rightarrow> Inl e | Inr loss \<Rightarrow> check_loss loss, s')"
  by (simp add: LossBase_call_def split: sum.splits)

lemma call_snd: "snd (LossBase_call s out tgt fc) = snd (LossBase_param_value s out tgt fc)"
  by (cases "LossBase_param_value s out tgt fc")
     (auto simp: LossBase_call_def split: sum.splits)


lemma then_do_Inr:
  "then_do r f = Inr y \<longleftrightarrow> (\<exists>x. r = Inr x \<and> f x = Inr y)"
  by (cases r) (auto simp: then_do_def)

lemma bound_args_Inr:
  "then_do (map_args maps kw) (build_args al) = Inr pv \<Longrightarrow>
   pv = build_args_body al (map_args_loop maps kw [])"
  by (auto simp: then_do_Inr map_args_def build_args_def split: if_splits)

lemma param_value_Inr:
  assumes "LossBase_param_value s out tgt fc = (Inr pv, s')"
  shows "al_varargs (get_arg_list (get_loss s)) = None"
    and "\<exists>args. al_args (get_arg_list (get_loss s)) = Some args"
    and "pv = build_args_body (get_arg_list (get_loss s))
                (map_args_loop (reversed_map (param_map s')) (merged out tgt) [])"
    and "get_loss s' = get_loss s"
    and "checked s'"
    and "distinct (dict_keys (param_map s)) \<Longrightarrow> distinct (dict_keys (param_map s'))"
proof -
  show v: "al_varargs (get_arg_list (get_loss s)) = None"
    using assms by (auto simp: LossBase_param_value_def Let_def split: if_splits)
  show "\<exists>args. al_args (get_arg_list (get_loss s)) = Some args"
    using assms v by (cases "al_args (get_arg_list (get_loss s))") (auto simp: LossBase_param_value_def Let_def)
  then obtain args where a: "al_args (get_arg_list (get_loss s)) = Some args" ..
  have d: "distinct (dict_keys (add_self_mapped ks pm))" if "distinct (dict_keys pm)" for ks pm
    using that by (induction ks pm rule: add_self_mapped.induct) (auto simp: distinct_dict_update)
  have "pv = build_args_body (get_arg_list (get_loss s))
               (map_args_loop (reversed_map (param_map s')) (merged out tgt) [])
        \<and> get_loss s' = get_loss s \<and> checked s'
        \<and> (distinct (dict_keys (param_map s)) \<longrightarrow> distinct (dict_keys (param_map s')))"
  proof (cases "checked s \<and> \<not> fc")
    case True
    with assms param_value_skipping [OF v a, of fc out tgt] show ?thesis
      by (auto dest: bound_args_Inr [OF sym])
  next
    case False
    let ?pm = "extended_map (get_arg_list (get_loss s)) (param_map s)"
    from assms param_value_checking [OF v a False, of out tgt]
    have t: "then_do (map_args (reversed_map ?pm) (merged out tgt))
               (build_args (get_arg_list (get_loss s))) = Inr pv"
      and s': "s' = s\<lparr>checked := True, param_map := ?pm\<rparr>"
      by (auto simp: Let_def split: if_splits)
    have "distinct (dict_keys (param_map s)) \<longrightarrow> distinct (dict_keys ?pm)"
      by (auto simp: extended_map_def Let_def d split: option.splits)
    with bound_args_Inr [OF t] s' show ?thesis by simp
  qed
  then show "pv = build_args_body (get_arg_list (get_loss s))
                    (map_args_loop (reversed_map (param_map s')) (merged out tgt) [])"
    and "get_loss s' = get_loss s" and "checked s'"
    and "distinct (dict_keys (param_map s)) \<Longrightarrow> distinct (dict_keys (param_map s'))"
    by auto
qed

lemma detection_raises:
  assumes v: "al_varargs (get_arg_list (get_loss s)) = None"
    and a: "al_args (get_arg_list (get_loss s)) = Some args"
    and c: "\<not> (checked s \<and> \<not> fc)"
    and d: "spec_duplicated out tgt \<noteq> [] \<or> spec_missing (param_map s) args out tgt \<noteq> []"
  shows "LossBase_call s out tgt fc =
           (Inl TypeError,
            s\<lparr>checked := False,
              param_map := extended_map (get_arg_list (get_loss s)) (param_map s)\<rparr>)"
    and "fst (LossBase_call (s\<lparr>get_loss := (get_loss s)\<lparr>run := r\<rparr>\<rparr>) out tgt fc) = Inl TypeError"
proof -
  have pv: "LossBase_param_value s out tgt fc =
           (Inl TypeError,
            s\<lparr>checked := False,
              param_map := extended_map (get_arg_list (get_loss s)) (param_map s)\<rparr>)"
    using d by (simp add: param_value_checking [OF v a c] Let_def)
  show "LossBase_call s out tgt fc =
           (Inl TypeError,
            s\<lparr>checked := False,
              param_map := extended_map (get_arg_list (get_loss s)) (param_map s)\<rparr>)"
    by (rule call_of_param_value_Inl [OF pv])
  show "fst (LossBase_call (s\<lparr>get_loss := (get_loss s)\<lparr>run := r\<rparr>\<rparr>) out tgt fc) = Inl TypeError"
    by (rule call_fst_of_param_value_Inl) (simp add: param_value_run_indep pv)
qed

lemma update_all_append: "update_all (xs @ ys) dst = update_all ys (update_all xs dst)"
  by (induction xs dst rule: update_all.induct) auto

lemma update_all_get_Some:
  assumes ex: "\<exists>e \<in> set src. fst e = k"
    and all: "\<forall>e \<in> set src. fst e = k \<longrightarrow> snd e = v"
  shows "dict_get (update_all src dst) k = Some v"
proof -
  from split_list_last_prop [OF ex]
  obtain ys x zs where s: "src = ys @ x # zs" and x: "fst x = k" and z: "\<forall>e \<in> set zs. fst e \<noteq> k"
    by blast
  from all s x have xv: "x = (k, v)" by (cases x) auto
  from z have "k \<notin> set (dict_keys zs)" by (auto simp: dict_keys_def)
  then show ?thesis
    by (simp add: s xv update_all_append dict_get_update_all_absent dict_get_update)
qed

lemma update_all_get_Nil_mem:
  "dict_get (update_all src []) k = Some v \<Longrightarrow> (k, v) \<in> set src"
proof -
  assume g: "dict_get (update_all src []) k = Some v"
  have "k \<in> set (dict_keys src)"
  proof (rule ccontr)
    assume "k \<notin> set (dict_keys src)"
    then have "dict_get (update_all src []) k = None"
      by (simp add: dict_get_update_all_absent)
    with g show False by simp
  qed
  then have ex: "\<exists>e \<in> set src. fst e = k" by (auto simp: dict_keys_def)
  from split_list_last_prop [OF ex]
  obtain ys x zs where s: "src = ys @ x # zs" and x: "fst x = k" and z: "\<forall>e \<in> set zs. fst e \<noteq> k"
    by blast
  from z have "k \<notin> set (dict_keys zs)" by (auto simp: dict_keys_def)
  then have "dict_get (update_all src []) k = Some (snd x)"
    using x by (cases x) (simp add: s update_all_append dict_get_update_all_absent dict_get_update)
  with g x have "x = (k, v)" by (cases x) auto
  with s show ?thesis by simp
qed

lemma dict_get_mem: "dict_get d k = Some v \<Longrightarrow> (k, v) \<in> set d"
  by (induction d) (auto split: if_splits)

lemma dict_get_distinct: "distinct (dict_keys d) \<Longrightarrow> (k, v) \<in> set d \<Longrightarrow> dict_get d k = Some v"
  by (induction d) (auto simp: dict_keys_def rev_image_eqI)

lemma reversed_loop_update_all:
  "reversed_loop items acc = update_all (map (\<lambda>(key, val). (val, key)) items) acc"
  by (induction items acc rule: reversed_loop.induct) auto

lemma map_args_loop_update_all:
  "map_args_loop maps kwargs acc =
     update_all (map (\<lambda>(name, val). (resolve maps name, val)) kwargs) acc"
  by (induction maps kwargs acc rule: map_args_loop.induct)
     (auto simp: resolve_def split: option.splits)

lemma reversed_map_get:
  assumes "(p, n) \<in> set pmap" and "\<forall>(q, m) \<in> set pmap. m = n \<longrightarrow> q = p"
  shows "dict_get (reversed_map pmap) n = Some p"
  unfolding reversed_map_def reversed_loop_update_all
  by (rule update_all_get_Some) (use assms in \<open>force+\<close>)

lemma reversed_map_mem: "dict_get (reversed_map pmap) n = Some q \<Longrightarrow> (q, n) \<in> set pmap"
  unfolding reversed_map_def reversed_loop_update_all
  by (drule update_all_get_Nil_mem) auto

lemma reversed_map_has: "dict_has n (reversed_map pmap) \<longleftrightarrow> n \<in> snd ` set pmap"
  unfolding reversed_map_def reversed_loop_update_all dict_has_def dict_keys_update_all
  by (force simp: dict_keys_def)

lemma distinct_merged: "distinct (dict_keys (merged out tgt))"
  by (simp add: merged_def distinct_update_all dict_keys_Nil)

lemma map_args_get:
  assumes d: "distinct (dict_keys pmap)"
    and pn: "dict_get pmap p = Some n"
    and inj: "\<forall>(q, m) \<in> set pmap. m = n \<longrightarrow> q = p"
    and sh: "dict_has p kw \<longrightarrow> p \<in> snd ` set pmap"
    and kd: "distinct (dict_keys kw)"
    and nv: "dict_get kw n = Some v"
  shows "dict_get (map_args_loop (reversed_map pmap) kw []) p = Some v"
proof -
  let ?rev = "reversed_map pmap"
  have rn: "dict_get ?rev n = Some p"
    using reversed_map_get [OF dict_get_mem [OF pn] inj] .
  have only: "name = n" if mem: "(name, val) \<in> set kw" and r: "resolve ?rev name = p" for name val
  proof (cases "dict_get ?rev name")
    case None
    with r have "name = p" by (simp add: resolve_def)
    with mem have "dict_has p kw" by (force simp: dict_has_def dict_keys_def)
    with sh have "dict_has p ?rev" by (simp add: reversed_map_has)
    with None \<open>name = p\<close> show ?thesis by (simp add: dict_has_iff_get)
  next
    case (Some q)
    with r have "q = p" by (simp add: resolve_def)
    with Some have "(p, name) \<in> set pmap" by (simp add: reversed_map_mem)
    from dict_get_distinct [OF d this] pn show ?thesis by simp
  qed
  have ex: "\<exists>e \<in> set (map (\<lambda>(name, val). (resolve ?rev name, val)) kw). fst e = p"
    using dict_get_mem [OF nv] rn by (force simp: resolve_def)
  have all: "\<forall>e \<in> set (map (\<lambda>(name, val). (resolve ?rev name, val)) kw). fst e = p \<longrightarrow> snd e = v"
  proof (clarsimp)
    fix name val
    assume m: "(name, val) \<in> set kw" and "p = resolve ?rev name"
    then have "name = n" using only by blast
    with m dict_get_distinct [OF kd] nv show "val = v" by fastforce
  qed
  show ?thesis
    unfolding map_args_loop_update_all
    by (rule update_all_get_Some [OF ex all])
qed

lemma distinct_map_args: "distinct (dict_keys (map_args_loop maps kw []))"
  unfolding map_args_loop_update_all
  by (simp add: distinct_update_all dict_keys_Nil)

lemma dict_get_filter_keys:
  "P k \<Longrightarrow> dict_get (filter (\<lambda>(name, val). P name) d) k = dict_get d k"
  by (induction d) auto

lemma build_args_get:
  assumes "p \<in> set (declared_names al)" and "distinct (dict_keys d)" and "dict_get d p = Some v"
  shows "dict_get (build_args_body al d) p = Some v"
proof (cases "al_kwargs al")
  case None
  have "distinct (dict_keys (filter (\<lambda>(name, val). name \<in> set (declared_names al)) d))"
    using assms(2) by (simp add: dict_keys_def distinct_map_filter)
  from dict_get_update_all_distinct [OF this] assms(1,3) None show ?thesis
    by (simp add: build_args_body_def Let_def declared_names_def [symmetric]
        dict_get_filter_keys [where P = "\<lambda>k. k \<in> set (declared_names al)"])
next
  case (Some a)
  with assms show ?thesis by (simp add: build_args_body_def)
qed


section \<open>Facts about strings and the pipeline\<close>

lemma split_not_Nil: "split sep s \<noteq> []"
  by (induction s) (auto split: list.splits)

lemma join_split: "join (split sep s) = filter (\<lambda>c. c \<noteq> sep) s"
proof (induction s)
  case Nil
  show ?case by (simp add: join_def)
next
  case (Cons c cs)
  obtain w ws where ws: "split sep cs = w # ws"
    using split_not_Nil [of sep cs] by (cases "split sep cs") auto
  with Cons show ?case by (auto simp: join_def)
qed

lemma drop_suffix4: "length s \<ge> 4 \<Longrightarrow> (drop (length s - 4) s = ''loss'') = suffix ''loss'' s"
  by (auto simp: suffix_def) (metis append_take_drop_id)

lemma loss_function_name_keys: "dict_keys loss_function_name = [''l1loss'', ''bceloss'', ''mseloss'', ''nllloss'', ''kldivloss'',
     ''nllloss2dloss'', ''smoothl1loss'', ''softmarginloss'', ''poissonnllloss'', ''multimarginloss'',
     ''crossentropyloss'', ''bcewithlogitsloss'', ''marginrankingloss'', ''tripletmarginloss'',
     ''hingeembeddingloss'', ''cosineembeddingloss'', ''multilabelmarginloss'', ''multilabelsoftmarginloss'']"
  by code_simp

lemma source_key:
  "(if length (join (split (CHR ''_'') (lower (strip loss_name)))) < 4 \<or>
       drop (length (join (split (CHR ''_'') (lower (strip loss_name)))) - 4)
         (join (split (CHR ''_'') (lower (strip loss_name)))) \<noteq> ''loss''
    then join (split (CHR ''_'') (lower (strip loss_name))) @ ''loss''
    else join (split (CHR ''_'') (lower (strip loss_name)))) = spec_table_key loss_name"
proof (cases "length (spec_normalised_name loss_name) < 4")
  case True
  then show ?thesis
    by (simp add: spec_table_key_def spec_normalised_name_def join_split lower_def)
next
  case False
  then have "4 \<le> length (spec_normalised_name loss_name)" by simp
  from drop_suffix4 [OF this] False show ?thesis
    by (simp add: spec_table_key_def spec_normalised_name_def join_split lower_def)
qed







lemma NewLoss_param_map:
  "param_map (NewLoss_init func key_map kwargs) =
     update_all kwargs (case key_map of None \<Rightarrow> [] | Some m \<Rightarrow> m)"
  by (cases kwargs; cases key_map) (simp_all add: NewLoss_init_def LossBase_init_def Let_def)

lemmas eval_defs = NewLoss_init_def LossBase_init_def pred_target_loss_def varargs_loss_def
  LossBase_call_def LossBase_param_value_def Let_def dict_has_def dict_keys_def
  map_args_def build_args_def build_args_body_def reversed_map_def check_loss_def
  is_tensor_def resolve_def spec_missing_def spec_duplicated_def merged_def declared_names_def
  then_do_def

section \<open>The claims\<close>

subsection \<open>C1: the arguments of the loss function\<close>

text \<open>
  Claim C1 says that whenever no missing or duplicated key is detected, each formal
  parameter \<open>p\<close> of \<^verbatim>\<open>get_loss\<close> receives the value stored under \<^verbatim>\<open>param_map[p]\<close> in
  the merged dictionary, and that the value of \<^verbatim>\<open>get_loss\<close> is returned.  It fails when two
  parameters are mapped to one name: for \<^verbatim>\<open>f(pred, target)\<close> with the key map
  \<^verbatim>\<open>{"pred": "x", "target": "x"}\<close> and the output \<^verbatim>\<open>{"x": t}\<close> nothing is detected,
  the reversed map keeps only \<^verbatim>\<open>"x": "target"\<close>, and \<^verbatim>\<open>get_loss\<close> is invoked without
  \<^verbatim>\<open>pred\<close>.
\<close>

theorem C1_shared_name_counterexample:
  "fst (LossBase_param_value
          (NewLoss_init pred_target_loss (Some [(''pred'', ''x''), (''target'', ''x'')]) [])
          [(''x'', Tensor [] 10)] [] False) = Inr [(''target'', Tensor [] 10)]
   \<and> dict_get [(''target'', Tensor [] 10)] ''pred'' = None
   \<and> dict_get (merged [(''x'', Tensor [] 10)] [])
         (resolve (param_map (NewLoss_init pred_target_loss
                    (Some [(''pred'', ''x''), (''target'', ''x'')]) [])) ''pred'')
       = Some (Tensor [] 10)
   \<and> fst (LossBase_call
            (NewLoss_init pred_target_loss (Some [(''pred'', ''x''), (''target'', ''x'')]) [])
            [(''x'', Tensor [] 10)] [] False) = Inl TypeError"
  by (simp add: eval_defs)

text \<open>
  A second way to miss the value: a key of the merged dictionary that bears the name of the
  parameter itself, and that no parameter is mapped to, is stored under that name too, and
  the later entry wins.
\<close>

lemma shadowed_parameter_example:
  "fst (LossBase_param_value
          (NewLoss_init pred_target_loss (Some [(''pred'', ''output'')]) [])
          [(''output'', Tensor [] 10), (''pred'', Tensor [] 2)] [(''target'', Tensor [] 3)] False)
     = Inr [(''pred'', Tensor [] 2), (''target'', Tensor [] 3)]"
  by (simp add: eval_defs)

text \<open>
  Claim C1 as amended.  On a call of \<^verbatim>\<open>LossBase.__call__\<close> that raises nothing before
  \<^verbatim>\<open>get_loss\<close> is invoked (no missing and no duplicated key is detected), \<^verbatim>\<open>get_loss\<close>
  is invoked with keyword arguments in which a declared parameter \<open>p\<close> whose name
  \<^verbatim>\<open>param_map[p]\<close> is a key of the merged dictionary receives the value stored there under
  that name, provided that \<open>p\<close> is the only key \<open>param_map\<close> maps to that name, and that
  \<open>p\<close> is not itself a key of the merged dictionary unless \<open>param_map\<close> maps some key to
  the name \<open>p\<close>.  The call returns the value of \<^verbatim>\<open>get_loss\<close> when it is a tensor of
  zero dimensions, and raises \<^verbatim>\<open>RuntimeError\<close> for any other value.
\<close>

theorem C1_resolved_arguments:
  assumes pv: "LossBase_param_value s out tgt fc = (Inr pv, s')"
    and d: "distinct (dict_keys (param_map s))"
    and p: "p \<in> set (declared_names (get_arg_list (get_loss s)))"
    and pn: "dict_get (param_map s') p = Some n"
    and nm: "dict_has n (merged out tgt)"
    and inj: "\<forall>(q, m) \<in> set (param_map s'). m = n \<longrightarrow> q = p"
    and sh: "dict_has p (merged out tgt) \<longrightarrow> p \<in> snd ` set (param_map s')"
  shows "dict_get pv p = dict_get (merged out tgt) n
       \<and> LossBase_call s out tgt fc =
           (case run (get_loss s) pv of
              Inl e \<Rightarrow> Inl e
            | Inr loss \<Rightarrow> if is_tensor loss \<and> length (tsize loss) = 0
                           then Inr loss else Inl RuntimeError, s')"
proof -
  note f = param_value_Inr [OF pv]
  from nm obtain v where v: "dict_get (merged out tgt) n = Some v"
    by (auto simp: dict_has_iff_get)
  have "dict_get (map_args_loop (reversed_map (param_map s')) (merged out tgt) []) p = Some v"
    by (rule map_args_get [OF f(6) [OF d] pn inj sh distinct_merged v])
  from build_args_get [OF p distinct_map_args this]
  have 1: "dict_get pv p = dict_get (merged out tgt) n"
    by (simp add: f(3) v)
  have 2: "LossBase_call s out tgt fc =
           (case run (get_loss s) pv of
              Inl e \<Rightarrow> Inl e
            | Inr loss \<Rightarrow> if is_tensor loss \<and> length (tsize loss) = 0
                           then Inr loss else Inl RuntimeError, s')"
    using call_of_param_value_Inr [OF pv]
    by (auto simp: f(4) check_loss_def split: sum.splits)
  from 1 2 show ?thesis ..
qed

theorem C1_resolved_arguments_witness:
  "dict_get [(''pred'', Tensor [] 10), (''target'', Tensor [] 2)] ''pred''
     = dict_get (merged [(''output'', Tensor [] 10)] [(''target'', Tensor [] 2)]) ''output''
   \<and> LossBase_call (NewLoss_init pred_target_loss (Some [(''pred'', ''output'')]) [])
        [(''output'', Tensor [] 10)] [(''target'', Tensor [] 2)] False
     = (Inr (Tensor [] 10),
        \<lparr>param_map = [(''pred'', ''output''), (''target'', ''target'')], checked = True,
         get_loss = pred_target_loss\<rparr>)"
proof -
  let ?s = "NewLoss_init pred_target_loss (Some [(''pred'', ''output'')]) []"
  let ?s' = "\<lparr>param_map = [(''pred'', ''output''), (''target'', ''target'')], checked = True,
              get_loss = pred_target_loss\<rparr>"
  let ?out = "[(''output'', Tensor [] 10)]"
  let ?tgt = "[(''target'', Tensor [] 2)]"
  let ?pv = "[(''pred'', Tensor [] 10), (''target'', Tensor [] 2)]"
  have pv: "LossBase_param_value ?s ?out ?tgt False = (Inr ?pv, ?s')"
    by (simp add: eval_defs)
  have d: "distinct (dict_keys (param_map ?s))" by (simp add: eval_defs)
  have p: "''pred'' \<in> set (declared_names (get_arg_list (get_loss ?s)))" by (simp add: eval_defs)
  have pn: "dict_get (param_map ?s') ''pred'' = Some ''output''" by simp
  have nm: "dict_has ''output'' (merged ?out ?tgt)" by (simp add: eval_defs)
  have inj: "\<forall>(q, m) \<in> set (param_map ?s'). m = ''output'' \<longrightarrow> q = ''pred''" by simp
  have sh: "dict_has ''pred'' (merged ?out ?tgt) \<longrightarrow> ''pred'' \<in> snd ` set (param_map ?s')"
    by (simp add: eval_defs)
  from C1_resolved_arguments [OF pv d p pn nm inj sh] show ?thesis
    by (simp add: eval_defs)
qed

subsection \<open>C2: missing keys\<close>

text \<open>
  Claim C2.  For an instance whose \<^verbatim>\<open>_checked\<close> flag is false, \<^verbatim>\<open>__call__\<close> is to
  raise \<^verbatim>\<open>CheckError\<close> when a formal parameter maps through \<open>param_map\<close> to a name
  that is a key of neither dictionary, with exactly those parameters in the \<^verbatim>\<open>missing\<close>
  field, without invoking \<^verbatim>\<open>get_loss\<close> and with \<^verbatim>\<open>_checked\<close> still false.  The code
  computes that list and goes on to raise \<^verbatim>\<open>CheckError\<close>, but line 74 builds the
  \<^verbatim>\<open>CheckRes\<close> from five keywords, without the \<^verbatim>\<open>varargs\<close> that
  \<^verbatim>\<open>LossInForward.get_loss\<close> passes in lines 135 to 140, and the construction raises
  \<^verbatim>\<open>TypeError\<close>.  For \<^verbatim>\<open>f(pred, target)\<close> with the key map
  \<^verbatim>\<open>{"pred": "output"}\<close>, the output \<^verbatim>\<open>{"output": t}\<close> and the target
  \<^verbatim>\<open>{"label": u}\<close> the list of missing parameters is \<^verbatim>\<open>["target"]\<close>, and the call
  ends in \<^verbatim>\<open>TypeError\<close>; the same five fields together with \<^verbatim>\<open>varargs\<close> would
  have made the \<^verbatim>\<open>CheckRes\<close> the claim describes.
\<close>

theorem C2_missing_raises_TypeError:
  "spec_missing (param_map (NewLoss_init pred_target_loss (Some [(''pred'', ''output'')]) []))
     [''pred'', ''target''] [(''output'', Tensor [] 10)] [(''label'', Tensor [] 2)] = [''target'']
   \<and> new_CheckRes (Some [''target'']) (Some []) (Some []) (Some []) (Some []) None = Inl TypeError
   \<and> new_CheckRes (Some [''target'']) (Some []) (Some []) (Some []) (Some []) (Some [])
       = Inr (CheckRes [''target''] [] [] [] [] [])
   \<and> LossBase_call (NewLoss_init pred_target_loss (Some [(''pred'', ''output'')]) [])
        [(''output'', Tensor [] 10)] [(''label'', Tensor [] 2)] False
       = (Inl TypeError,
          \<lparr>param_map = [(''pred'', ''output''), (''target'', ''target'')], checked = False,
           get_loss = pred_target_loss\<rparr>)"
  by (simp add: eval_defs)

subsection \<open>C3: duplicated keys\<close>

text \<open>
  Claim C3.  For an instance whose \<^verbatim>\<open>_checked\<close> flag is false, \<^verbatim>\<open>__call__\<close> is to
  raise \<^verbatim>\<open>CheckError\<close> when a key occurs in both dictionaries, even a key no formal
  parameter needs, with exactly those keys in the \<^verbatim>\<open>duplicated\<close> field and without
  invoking \<^verbatim>\<open>get_loss\<close>.  The code finds the keys and goes on to raise
  \<^verbatim>\<open>CheckError\<close>, but the \<^verbatim>\<open>CheckRes\<close> of line 74 lacks the \<^verbatim>\<open>varargs\<close>
  keyword and its construction raises \<^verbatim>\<open>TypeError\<close> (the defect of C2).  For
  \<^verbatim>\<open>f(pred, target)\<close> with the output \<^verbatim>\<open>{"pred": t, "seq_len": n}\<close> and the target
  \<^verbatim>\<open>{"target": u, "seq_len": m}\<close> the list of duplicated keys is \<^verbatim>\<open>["seq_len"]\<close>,
  and the call ends in \<^verbatim>\<open>TypeError\<close>.
\<close>

theorem C3_duplicated_raises_TypeError:
  "spec_duplicated [(''pred'', Tensor [] 10), (''seq_len'', Tensor [4] 2)]
     [(''target'', Tensor [] 3), (''seq_len'', Tensor [4] 4)] = [''seq_len'']
   \<and> find_duplicated [(''pred'', Tensor [] 10), (''seq_len'', Tensor [4] 2)]
       [(''target'', Tensor [] 3), (''seq_len'', Tensor [4] 4)] [] = [''seq_len'']
   \<and> new_CheckRes (Some []) (Some []) (Some [''seq_len'']) (Some []) (Some []) None = Inl TypeError
   \<and> LossBase_call (NewLoss_init pred_target_loss None [])
        [(''pred'', Tensor [] 10), (''seq_len'', Tensor [4] 2)]
        [(''target'', Tensor [] 3), (''seq_len'', Tensor [4] 4)] False
       = (Inl TypeError,
          \<lparr>param_map = [(''pred'', ''pred''), (''target'', ''target'')], checked = False,
           get_loss = pred_target_loss\<rparr>)"
  by (simp add: eval_defs)

subsection \<open>C4: the extension of the parameter map\<close>

text \<open>
  Claim C4 says that every call with checking enabled extends \<open>param_map\<close> by the
  arguments of \<^verbatim>\<open>get_loss\<close>.  When \<^verbatim>\<open>get_loss\<close> takes \<^verbatim>\<open>*args\<close> the call raises
  \<^verbatim>\<open>RuntimeError\<close> before that, and \<open>param_map\<close> stays as it was.
\<close>

theorem C4_varargs_counterexample:
  "\<not> checked (NewLoss_init varargs_loss None [])
   \<and> al_args (get_arg_list (get_loss (NewLoss_init varargs_loss None []))) = Some [''pred'']
   \<and> dict_get (param_map (snd (LossBase_call (NewLoss_init varargs_loss None [])
                  [(''pred'', Tensor [] 10)] [] False))) ''pred'' = None"
  by (simp add: eval_defs)

text \<open>
  Claim C4 as amended.  On every \<^verbatim>\<open>__call__\<close> with checking enabled of an instance
  whose \<^verbatim>\<open>get_loss\<close> has an argument list and takes no \<^verbatim>\<open>*args\<close>, \<open>param_map\<close> is
  extended so that each formal-argument name and each keyword-defaulted argument name that
  is not yet a key becomes mapped to itself, while every mapping supplied beforehand is left
  unchanged: the old map is an initial segment of the new one, and the new one has no other
  entries.  \<open>NewLoss_param_map\<close> says what \<^verbatim>\<open>NewLoss\<close> supplies: the key map, updated by
  the keyword arguments.
\<close>

theorem C4_param_map_extended:
  assumes v: "al_varargs (get_arg_list (get_loss s)) = None"
    and a: "al_args (get_arg_list (get_loss s)) = Some args"
    and c: "\<not> checked s \<or> fc"
  shows "(\<exists>added. param_map (snd (LossBase_call s out tgt fc)) = param_map s @ added)
       \<and> (\<forall>k. dict_get (param_map (snd (LossBase_call s out tgt fc))) k =
            (case dict_get (param_map s) k of
               Some name \<Rightarrow> Some name
             | None \<Rightarrow>
                 if k \<in> set args \<union> (case al_defaults (get_arg_list (get_loss s)) of
                                      None \<Rightarrow> {} | Some defaults \<Rightarrow> set defaults)
                 then Some k else None))"
proof -
  let ?pm = "extended_map (get_arg_list (get_loss s)) (param_map s)"
  from c have c': "\<not> (checked s \<and> \<not> fc)" by auto
  have pm: "param_map (snd (LossBase_call s out tgt fc)) = ?pm"
    by (simp add: call_snd param_value_checking [OF v a c'] Let_def)
  have "\<exists>added. ?pm = param_map s @ added"
  proof (cases "al_defaults (get_arg_list (get_loss s))")
    case None
    then show ?thesis
      using a add_self_mapped_prefix [of args "param_map s"] by (simp add: extended_map_def)
  next
    case (Some d)
    obtain z1 where z1: "add_self_mapped args (param_map s) = param_map s @ z1"
      using add_self_mapped_prefix by blast
    obtain z2 where "add_self_mapped d (param_map s @ z1) = (param_map s @ z1) @ z2"
      using add_self_mapped_prefix by blast
    with z1 Some a show ?thesis by (simp add: extended_map_def)
  qed
  then show ?thesis
    by (simp add: pm extended_map_get [OF a])
qed

theorem C4_param_map_extended_witness:
  "param_map (snd (LossBase_call
       (NewLoss_init pred_target_loss (Some [(''pred'', ''output'')]) [(''weight'', ''w'')])
       [(''output'', Tensor [] 10)] [(''target'', Tensor [] 2)] False))
     = [(''pred'', ''output''), (''weight'', ''w''), (''target'', ''target'')]
   \<and> (\<exists>added. param_map (snd (LossBase_call
          (NewLoss_init pred_target_loss (Some [(''pred'', ''output'')]) [(''weight'', ''w'')])
          [(''output'', Tensor [] 10)] [(''target'', Tensor [] 2)] False))
        = param_map (NewLoss_init pred_target_loss (Some [(''pred'', ''output'')])
            [(''weight'', ''w'')]) @ added)"
proof -
  let ?s = "NewLoss_init pred_target_loss (Some [(''pred'', ''output'')]) [(''weight'', ''w'')]"
  have v: "al_varargs (get_arg_list (get_loss ?s)) = None" by (simp add: eval_defs)
  have a: "al_args (get_arg_list (get_loss ?s)) = Some [''pred'', ''target'']" by (simp add: eval_defs)
  have c: "\<not> checked ?s \<or> False" by (simp add: eval_defs)
  have e: "param_map (snd (LossBase_call ?s [(''output'', Tensor [] 10)] [(''target'', Tensor [] 2)] False))
             = [(''pred'', ''output''), (''weight'', ''w''), (''target'', ''target'')]"
    by (simp add: eval_defs)
  from C4_param_map_extended [OF v a c, of "[(''output'', Tensor [] 10)]" "[(''target'', Tensor [] 2)]"] e
  show ?thesis by blast
qed

subsection \<open>C5: the pre-processing pipeline\<close>



subsection \<open>C6: the name of the torch loss function\<close>

text \<open>
  Claim C6.  \<^verbatim>\<open>Loss._get_loss(loss_name, **kwargs)\<close> normalises the name by stripping
  the surrounding white space, lowercasing, and deleting every underscore, and appends
  \<^verbatim>\<open>"loss"\<close> exactly when the normalised name is shorter than four characters or does not
  end in \<^verbatim>\<open>"loss"\<close>; it instantiates the constructor stored under that key in
  \<open>loss_function_name\<close>, and a key absent from the table makes the lookup fail with
  \<^verbatim>\<open>KeyError\<close>.
\<close>

theorem C6_get_loss_normalises:
  "Loss_get_loss instantiate loss_name kwargs =
     (case dict_get loss_function_name (spec_table_key loss_name) of
        None \<Rightarrow> Inl (KeyError (spec_table_key loss_name))
      | Some cls \<Rightarrow> instantiate cls kwargs)"
  unfolding Loss_get_loss_def Let_def source_key ..

theorem C6_get_loss_normalises_witness:
  "Loss_get_loss (\<lambda>cls kw. Inr cls) '' NLL_Loss2d '' [] = Inr Torch_NLLLoss2d
   \<and> Loss_get_loss (\<lambda>cls kw. Inr cls) ''Cross_Entropy_Loss'' [] = Inr Torch_CrossEntropyLoss
   \<and> Loss_get_loss (\<lambda>cls kw. Inr cls) ''focal'' [] = (Inl (KeyError ''focalloss'') :: exn + torch_loss)"
proof -
  have k1: "spec_table_key '' NLL_Loss2d '' = ''nllloss2dloss''" by code_simp
  have k2: "spec_table_key ''Cross_Entropy_Loss'' = ''crossentropyloss''" by code_simp
  have k3: "spec_table_key ''focal'' = ''focalloss''" by code_simp
  have t1: "dict_get loss_function_name ''nllloss2dloss'' = Some Torch_NLLLoss2d" by code_simp
  have t2: "dict_get loss_function_name ''crossentropyloss'' = Some Torch_CrossEntropyLoss" by code_simp
  have t3: "dict_get loss_function_name ''focalloss'' = None" by code_simp
  show ?thesis
    using C6_get_loss_normalises [of "\<lambda>cls kw. Inr cls" "'' NLL_Loss2d ''" "[]"]
      C6_get_loss_normalises [of "\<lambda>cls kw. Inr cls" "''Cross_Entropy_Loss''" "[]"]
      C6_get_loss_normalises [of "\<lambda>cls kw. (Inr cls :: exn + torch_loss)" "''focal''" "[]"]
    by (simp add: k1 k2 k3 t1 t2 t3)
qed

subsection \<open>C7: only a scalar tensor is returned\<close>

text \<open>
  Claim C7.  \<^verbatim>\<open>LossBase.__call__\<close> returns the value produced by \<^verbatim>\<open>get_loss\<close> only
  when that value is a \<^verbatim>\<open>torch.Tensor\<close> of zero dimensions; for every other result of
  \<^verbatim>\<open>get_loss\<close>, a value that is no tensor or a tensor of nonzero dimension, it raises
  \<^verbatim>\<open>RuntimeError\<close> instead of returning.
\<close>

theorem C7_only_scalar_tensor_returned:
  "(LossBase_param_value s out tgt fc = (Inr pv, s') \<and> run (get_loss s') pv = Inr loss \<longrightarrow>
      LossBase_call s out tgt fc =
        (if is_tensor loss \<and> length (tsize loss) = 0 then Inr loss else Inl RuntimeError, s'))
   \<and> (fst (LossBase_call s out tgt fc) = Inr v \<longrightarrow>
        is_tensor v \<and> length (tsize v) = 0 \<and>
        (\<exists>pv s'. LossBase_param_value s out tgt fc = (Inr pv, s') \<and> run (get_loss s') pv = Inr v))"
  by (cases "LossBase_param_value s out tgt fc")
     (auto simp: LossBase_call_def check_loss_def split: sum.splits if_splits)

theorem C7_only_scalar_tensor_returned_witness:
  "fst (LossBase_call (NewLoss_init pred_target_loss None [])
          [(''pred'', Tensor [] 10)] [(''target'', Tensor [] 2)] False) = Inr (Tensor [] 10)
   \<and> fst (LossBase_call (NewLoss_init pred_target_loss None [])
          [(''pred'', Tensor [8, 5] 10)] [(''target'', Tensor [8] 2)] False) = Inl RuntimeError
   \<and> fst (LossBase_call (NewLoss_init pred_target_loss None [])
          [(''pred'', PyNone)] [(''target'', Tensor [8] 2)] False) = Inl RuntimeError"
proof -
  let ?s = "NewLoss_init pred_target_loss None []"
  let ?s' = "\<lparr>param_map = [(''pred'', ''pred''), (''target'', ''target'')], checked = True,
              get_loss = pred_target_loss\<rparr>"
  have p1: "LossBase_param_value ?s [(''pred'', Tensor [] 10)] [(''target'', Tensor [] 2)] False
              = (Inr [(''pred'', Tensor [] 10), (''target'', Tensor [] 2)], ?s')
            \<and> run (get_loss ?s') [(''pred'', Tensor [] 10), (''target'', Tensor [] 2)] = Inr (Tensor [] 10)"
    by (simp add: eval_defs)
  have p2: "LossBase_param_value ?s [(''pred'', Tensor [8, 5] 10)] [(''target'', Tensor [8] 2)] False
              = (Inr [(''pred'', Tensor [8, 5] 10), (''target'', Tensor [8] 2)], ?s')
            \<and> run (get_loss ?s') [(''pred'', Tensor [8, 5] 10), (''target'', Tensor [8] 2)]
              = Inr (Tensor [8, 5] 10)"
    by (simp add: eval_defs)
  have p3: "LossBase_param_value ?s [(''pred'', PyNone)] [(''target'', Tensor [8] 2)] False
              = (Inr [(''pred'', PyNone), (''target'', Tensor [8] 2)], ?s')
            \<and> run (get_loss ?s') [(''pred'', PyNone), (''target'', Tensor [8] 2)] = Inr PyNone"
    by (simp add: eval_defs)
  from C7_only_scalar_tensor_returned [of ?s "[(''pred'', Tensor [] 10)]" "[(''target'', Tensor [] 2)]" False
      "[(''pred'', Tensor [] 10), (''target'', Tensor [] 2)]" ?s' "Tensor [] 10" "Tensor [] 10"] p1
  have 1: "fst (LossBase_call ?s [(''pred'', Tensor [] 10)] [(''target'', Tensor [] 2)] False)
             = Inr (Tensor [] 10)"
    by (simp add: is_tensor_def)
  from C7_only_scalar_tensor_returned [of ?s "[(''pred'', Tensor [8, 5] 10)]" "[(''target'', Tensor [8] 2)]" False
      "[(''pred'', Tensor [8, 5] 10), (''target'', Tensor [8] 2)]" ?s' "Tensor [8, 5] 10" "Tensor [] 10"] p2
  have 2: "fst (LossBase_call ?s [(''pred'', Tensor [8, 5] 10)] [(''target'', Tensor [8] 2)] False)
             = Inl RuntimeError"
    by (simp add: is_tensor_def)
  from C7_only_scalar_tensor_returned [of ?s "[(''pred'', PyNone)]" "[(''target'', Tensor [8] 2)]" False
      "[(''pred'', PyNone), (''target'', Tensor [8] 2)]" ?s' PyNone "Tensor [] 10"] p3
  have 3: "fst (LossBase_call ?s [(''pred'', PyNone)] [(''target'', Tensor [8] 2)] False)
             = Inl RuntimeError"
    by (simp add: is_tensor_def)
  from 1 2 3 show ?thesis by simp
qed

subsection \<open>C8: the checked flag\<close>

text \<open>
  Claim C8 says that after a call that returned normally every later call with
  \<^verbatim>\<open>force_check=False\<close> skips both detections, and that \<^verbatim>\<open>force_check=True\<close>
  re-enables them for that one call.  It fails after a forced check that raised.  The first
  call below returns, and a call with \<^verbatim>\<open>force_check=False\<close> that follows it returns as
  well although \<^verbatim>\<open>"target"\<close> is in both dictionaries.  But a call with
  \<^verbatim>\<open>force_check=True\<close> and these dictionaries raises and leaves \<^verbatim>\<open>_checked\<close> false,
  and after it the same call with \<^verbatim>\<open>force_check=False\<close> runs the detection and raises
  too.
\<close>

theorem C8_failed_force_check_counterexample:
  "fst (LossBase_call (NewLoss_init pred_target_loss None [])
          [(''pred'', Tensor [] 10)] [(''target'', Tensor [] 2)] False) = Inr (Tensor [] 10)
   \<and> fst (LossBase_call
            (snd (LossBase_call (NewLoss_init pred_target_loss None [])
                    [(''pred'', Tensor [] 10)] [(''target'', Tensor [] 2)] False))
            [(''pred'', Tensor [] 10), (''target'', Tensor [] 3)] [(''target'', Tensor [] 2)] False)
       = Inr (Tensor [] 10)
   \<and> \<not> checked
        (snd (LossBase_call
                (snd (LossBase_call (NewLoss_init pred_target_loss None [])
                        [(''pred'', Tensor [] 10)] [(''target'', Tensor [] 2)] False))
                [(''pred'', Tensor [] 10), (''target'', Tensor [] 3)] [(''target'', Tensor [] 2)] True))
   \<and> fst (LossBase_call
            (snd (LossBase_call
                    (snd (LossBase_call (NewLoss_init pred_target_loss None [])
                            [(''pred'', Tensor [] 10)] [(''target'', Tensor [] 2)] False))
                    [(''pred'', Tensor [] 10), (''target'', Tensor [] 3)] [(''target'', Tensor [] 2)] True))
            [(''pred'', Tensor [] 10), (''target'', Tensor [] 3)] [(''target'', Tensor [] 2)] False)
       = Inl TypeError"
  by (simp add: eval_defs)

text \<open>
  Claim C8 as amended.  After any \<^verbatim>\<open>LossBase.__call__\<close> that returns normally the
  \<^verbatim>\<open>_checked\<close> flag is true, and a call with \<^verbatim>\<open>force_check=False\<close> made while the flag
  is true skips both detections and leaves the instance as it is (so the same holds for the
  calls with \<^verbatim>\<open>force_check=False\<close> that follow it): whatever the two dictionaries share
  or lack, the call goes straight on to build the keyword arguments and, unless that raises,
  to invoke \<^verbatim>\<open>get_loss\<close>; it raises no \<^verbatim>\<open>CheckError\<close> unless \<^verbatim>\<open>get_loss\<close>
  itself does, and the value of \<^verbatim>\<open>target_dict\<close> overwrites that of \<^verbatim>\<open>output_dict\<close>
  in the merged dictionary.  Passing \<^verbatim>\<open>force_check=True\<close> re-enables both detections for that call:
  with a key in both dictionaries or a missing parameter it raises without invoking
  \<^verbatim>\<open>get_loss\<close> and leaves the flag false, so the detections stay enabled until a call
  passes them.
\<close>

theorem C8_checked_skips_detection:
  assumes r: "LossBase_call s out tgt fc = (Inr v, s')"
  shows "checked s'
    \<and> LossBase_call s' out2 tgt2 False =
        (then_do (map_args (reversed_map (param_map s')) (merged out2 tgt2))
           (\<lambda>param_map_val. then_do (build_args (get_arg_list (get_loss s')) param_map_val)
              (\<lambda>param_value. then_do (run (get_loss s') param_value) check_loss)),
         s')
    \<and> ((\<forall>pv cr sg. run (get_loss s') pv \<noteq> Inl (CheckError cr sg)) \<longrightarrow>
         (\<forall>cr sg. fst (LossBase_call s' out2 tgt2 False) \<noteq> Inl (CheckError cr sg)))
    \<and> (distinct (dict_keys tgt2) \<longrightarrow>
         (\<forall>k. dict_has k tgt2 \<longrightarrow> dict_get (merged out2 tgt2) k = dict_get tgt2 k))
    \<and> ((\<exists>k. k \<in> set (dict_keys out2) \<and> k \<in> set (dict_keys tgt2)) \<longrightarrow>
         (\<exists>e s''. LossBase_call s' out2 tgt2 True = (Inl e, s'') \<and> \<not> checked s''
            \<and> (\<forall>r. fst (LossBase_call (s'\<lparr>get_loss := (get_loss s')\<lparr>run := r\<rparr>\<rparr>) out2 tgt2 True)
                   = Inl e)))
    \<and> (\<forall>args. al_args (get_arg_list (get_loss s')) = Some args \<and>
           (\<exists>p \<in> set args. resolve (param_map s') p \<notin> set (dict_keys out2) \<union> set (dict_keys tgt2)) \<longrightarrow>
         (\<exists>e s''. LossBase_call s' out2 tgt2 True = (Inl e, s'') \<and> \<not> checked s''
            \<and> (\<forall>r. fst (LossBase_call (s'\<lparr>get_loss := (get_loss s')\<lparr>run := r\<rparr>\<rparr>) out2 tgt2 True)
                   = Inl e)))"
proof -
  obtain pv where pv: "LossBase_param_value s out tgt fc = (Inr pv, s')"
    using r by (cases "LossBase_param_value s out tgt fc")
      (auto simp: LossBase_call_def split: sum.splits)
  note f = param_value_Inr [OF pv]
  from f(2) obtain args where a: "al_args (get_arg_list (get_loss s)) = Some args" ..
  have v': "al_varargs (get_arg_list (get_loss s')) = None" using f(1) f(4) by simp
  have a': "al_args (get_arg_list (get_loss s')) = Some args" using a f(4) by simp
  have c: "checked s'" by (rule f(5))
  have skip: "LossBase_param_value s' out2 tgt2 False =
     (then_do (map_args (reversed_map (param_map s')) (merged out2 tgt2))
        (build_args (get_arg_list (get_loss s'))), s')"
    using param_value_skipping [OF v' a' c, of False] by simp
  have call: "LossBase_call s' out2 tgt2 False =
        (then_do (map_args (reversed_map (param_map s')) (merged out2 tgt2))
           (\<lambda>param_map_val. then_do (build_args (get_arg_list (get_loss s')) param_map_val)
              (\<lambda>param_value. then_do (run (get_loss s') param_value) check_loss)),
         s')"
    by (simp add: LossBase_call_def skip then_do_def split: sum.splits)
  have noce: "fst (LossBase_call s' out2 tgt2 False) \<noteq> Inl (CheckError cr sg)"
    if "\<forall>pv cr sg. run (get_loss s') pv \<noteq> Inl (CheckError cr sg)" for cr sg
    using that unfolding call
    by (auto simp: check_loss_def then_do_def map_args_def build_args_def split: sum.splits)
  have over: "dict_get (merged out2 tgt2) k = dict_get tgt2 k"
    if "distinct (dict_keys tgt2)" "dict_has k tgt2" for k
    using that
    by (auto simp: merged_def dict_get_update_all_distinct dict_has_iff_get split: option.splits)
  have force: "\<exists>e s''. LossBase_call s' out2 tgt2 True = (Inl e, s'') \<and> \<not> checked s''
            \<and> (\<forall>r. fst (LossBase_call (s'\<lparr>get_loss := (get_loss s')\<lparr>run := r\<rparr>\<rparr>) out2 tgt2 True)
                   = Inl e)"
    if d: "spec_duplicated out2 tgt2 \<noteq> [] \<or> spec_missing (param_map s') args out2 tgt2 \<noteq> []"
  proof -
    have n: "\<not> (checked s' \<and> \<not> True)" by simp
    from detection_raises [OF v' a' n d] show ?thesis by simp
  qed
  have fd: "\<exists>e s''. LossBase_call s' out2 tgt2 True = (Inl e, s'') \<and> \<not> checked s''
            \<and> (\<forall>r. fst (LossBase_call (s'\<lparr>get_loss := (get_loss s')\<lparr>run := r\<rparr>\<rparr>) out2 tgt2 True)
                   = Inl e)"
    if "\<exists>k. k \<in> set (dict_keys out2) \<and> k \<in> set (dict_keys tgt2)"
  proof -
    from that have "spec_duplicated out2 tgt2 \<noteq> []"
      by (auto simp: spec_duplicated_def filter_empty_conv)
    with force show ?thesis by blast
  qed
  have fm: "\<exists>e s''. LossBase_call s' out2 tgt2 True = (Inl e, s'') \<and> \<not> checked s''
            \<and> (\<forall>r. fst (LossBase_call (s'\<lparr>get_loss := (get_loss s')\<lparr>run := r\<rparr>\<rparr>) out2 tgt2 True)
                   = Inl e)"
    if "al_args (get_arg_list (get_loss s')) = Some args'"
      "\<exists>p \<in> set args'. resolve (param_map s') p \<notin> set (dict_keys out2) \<union> set (dict_keys tgt2)"
    for args'
  proof -
    from that a' have e: "args' = args" by simp
    from that have "spec_missing (param_map s') args' out2 tgt2 \<noteq> []"
      by (auto simp: spec_missing_def filter_empty_conv)
    with force e show ?thesis by blast
  qed
  from c call noce over fd fm show ?thesis by blast
qed

theorem C8_checked_skips_detection_witness:
  "LossBase_call
     \<lparr>param_map = [(''pred'', ''pred''), (''target'', ''target'')], checked = True,
      get_loss = pred_target_loss\<rparr>
     [(''pred'', Tensor [] 10), (''target'', Tensor [] 3)] [(''target'', Tensor [] 2)] False
   = (Inr (Tensor [] 10),
      \<lparr>param_map = [(''pred'', ''pred''), (''target'', ''target'')], checked = True,
       get_loss = pred_target_loss\<rparr>)
   \<and> dict_get (merged [(''pred'', Tensor [] 10), (''target'', Tensor [] 3)] [(''target'', Tensor [] 2)])
       ''target'' = Some (Tensor [] 2)
   \<and> (\<exists>e s''. LossBase_call
         \<lparr>param_map = [(''pred'', ''pred''), (''target'', ''target'')], checked = True,
          get_loss = pred_target_loss\<rparr>
         [(''pred'', Tensor [] 10), (''target'', Tensor [] 3)] [(''target'', Tensor [] 2)] True
       = (Inl e, s'') \<and> \<not> checked s'')
   \<and> (\<exists>e s''. LossBase_call
         \<lparr>param_map = [(''pred'', ''pred''), (''target'', ''target'')], checked = True,
          get_loss = pred_target_loss\<rparr>
         [(''pred'', Tensor [] 10)] [] True
       = (Inl e, s'') \<and> \<not> checked s'')"
proof -
  let ?s = "NewLoss_init pred_target_loss None []"
  let ?s' = "\<lparr>param_map = [(''pred'', ''pred''), (''target'', ''target'')], checked = True,
              get_loss = pred_target_loss\<rparr>"
  let ?out2 = "[(''pred'', Tensor [] 10), (''target'', Tensor [] 3)]"
  let ?tgt2 = "[(''target'', Tensor [] 2)]"
  have r: "LossBase_call ?s [(''pred'', Tensor [] 10)] [(''target'', Tensor [] 2)] False
             = (Inr (Tensor [] 10), ?s')"
    by (simp add: eval_defs)
  note t1 = C8_checked_skips_detection [OF r, of ?out2 ?tgt2]
  note t2 = C8_checked_skips_detection [OF r, of "[(''pred'', Tensor [] 10)]" "[]"]
  note call = t1 [THEN conjunct2, THEN conjunct1]
  note over = t1 [THEN conjunct2, THEN conjunct2, THEN conjunct2, THEN conjunct1]
  note dupl = t1 [THEN conjunct2, THEN conjunct2, THEN conjunct2, THEN conjunct2, THEN conjunct1]
  note miss = t2 [THEN conjunct2, THEN conjunct2, THEN conjunct2, THEN conjunct2, THEN conjunct2]
  have a: "al_args (get_arg_list (get_loss ?s')) = Some [''pred'', ''target'']"
    by (simp add: eval_defs)
  have 1: "LossBase_call ?s' ?out2 ?tgt2 False = (Inr (Tensor [] 10), ?s')"
    using call by (simp add: eval_defs)
  have d: "distinct (dict_keys ?tgt2)" "dict_has ''target'' ?tgt2" by (simp_all add: eval_defs)
  have 2: "dict_get (merged ?out2 ?tgt2) ''target'' = Some (Tensor [] 2)"
    using over [rule_format, OF d] by simp
  have k: "\<exists>k. k \<in> set (dict_keys ?out2) \<and> k \<in> set (dict_keys ?tgt2)"
    by (rule exI [of _ "''target''"]) (simp add: eval_defs)
  have 3: "\<exists>e s''. LossBase_call ?s' ?out2 ?tgt2 True = (Inl e, s'') \<and> \<not> checked s''"
    using dupl [rule_format, OF k] by blast
  have m: "\<exists>p \<in> set [''pred'', ''target'']. resolve (param_map ?s') p
             \<notin> set (dict_keys [(''pred'', Tensor [] 10)]) \<union> set (dict_keys ([] :: (string, pyval) dict))"
    by (simp add: eval_defs)
  have 4: "\<exists>e s''. LossBase_call ?s' [(''pred'', Tensor [] 10)] [] True = (Inl e, s'')
             \<and> \<not> checked s''"
    using miss [rule_format, OF conjI [OF a m]] by blast
  from 1 2 3 4 show ?thesis by (intro conjI)
qed

subsection \<open>C9: LossInForward\<close>

text \<open>
  Claim C9 says that \<^verbatim>\<open>LossInForward.__call__\<close> never returns a loss value because
  \<^verbatim>\<open>get_loss\<close> raises \<^verbatim>\<open>CheckError\<close> when \<^verbatim>\<open>loss_key\<close> is absent and returns
  \<^verbatim>\<open>None\<close> otherwise, so that \<^verbatim>\<open>__call__\<close> either propagates that \<^verbatim>\<open>CheckError\<close> or
  raises \<^verbatim>\<open>TypeError\<close> on the \<^verbatim>\<open>None\<close>.  The two cases leave one out: the call
  \<^verbatim>\<open>self.get_loss(**output_dict)\<close> raises \<^verbatim>\<open>TypeError\<close> itself when \<^verbatim>\<open>output_dict\<close>
  has the key \<^verbatim>\<open>"self"\<close>, also when \<^verbatim>\<open>loss_key\<close> is absent, and the body of
  \<^verbatim>\<open>get_loss\<close> does not run.
\<close>

theorem C9_self_key_counterexample:
  "\<not> dict_has ''loss'' [(''self'', Tensor [] 2)]
   \<and> LossInForward_call ''loss'' ''get_loss(**kwargs)'' [(''self'', Tensor [] 2)] [] False
       = Inl TypeError
   \<and> LossInForward_get_loss ''loss'' ''get_loss(**kwargs)'' [(''self'', Tensor [] 2)]
       = Inl (CheckError (CheckRes [''loss''] [] [] [] [] []) ''get_loss(**kwargs)'')"
  by (simp add: LossInForward_call_def LossInForward_get_loss_def dict_has_def dict_keys_def)

text \<open>
  Claim C9 as amended.  \<^verbatim>\<open>LossInForward.__call__\<close> never returns a loss value for any
  input: \<^verbatim>\<open>LossInForward.get_loss\<close> raises \<^verbatim>\<open>CheckError\<close> when \<^verbatim>\<open>loss_key\<close> is
  absent from its keyword arguments and falls off the end returning \<^verbatim>\<open>None\<close> otherwise,
  so \<^verbatim>\<open>__call__\<close> raises \<^verbatim>\<open>TypeError\<close> when \<^verbatim>\<open>output_dict\<close> has the key
  \<^verbatim>\<open>"self"\<close>, which cannot be passed to \<^verbatim>\<open>get_loss\<close>, and otherwise either propagates
  that \<^verbatim>\<open>CheckError\<close> or raises \<^verbatim>\<open>TypeError\<close> on the \<^verbatim>\<open>None\<close> result.
\<close>

theorem C9_LossInForward_never_returns:
  "LossInForward_get_loss loss_key sig kwargs =
     (if dict_has loss_key kwargs then Inr PyNone
      else Inl (CheckError (CheckRes [loss_key] [] [] [] [] []) sig))
   \<and> LossInForward_call loss_key sig output_dict predict_dict force_check =
     (if dict_has ''self'' output_dict then Inl TypeError
      else if dict_has loss_key output_dict then Inl TypeError
      else Inl (CheckError (CheckRes [loss_key] [] [] [] [] []) sig))
   \<and> (\<forall>v. LossInForward_call loss_key sig output_dict predict_dict force_check \<noteq> Inr v)"
  by (simp add: LossInForward_get_loss_def LossInForward_call_def is_tensor_def)

theorem C9_LossInForward_never_returns_witness:
  "LossInForward_call ''loss'' ''get_loss(**kwargs)'' [(''loss'', Tensor [] 10)] [] False = Inl TypeError
   \<and> LossInForward_call ''loss'' ''get_loss(**kwargs)'' [(''pred'', Tensor [] 10)] [] False
       = Inl (CheckError (CheckRes [''loss''] [] [] [] [] []) ''get_loss(**kwargs)'')
   \<and> LossInForward_call ''loss'' ''get_loss(**kwargs)''
        [(''loss'', Tensor [] 10), (''self'', Tensor [] 2)] [] False = Inl TypeError"
  using C9_LossInForward_never_returns [of "''loss''" "''get_loss(**kwargs)''" "[]" "[(''loss'', Tensor [] 10)]" "[]" False]
    C9_LossInForward_never_returns [of "''loss''" "''get_loss(**kwargs)''" "[]" "[(''pred'', Tensor [] 10)]" "[]" False]
    C9_LossInForward_never_returns [of "''loss''" "''get_loss(**kwargs)''" "[]"
      "[(''loss'', Tensor [] 10), (''self'', Tensor [] 2)]" "[]" False]
  by (simp add: dict_has_def dict_keys_def)

subsection \<open>C10: adding a pre-processing function\<close>

text \<open>
  Claim C10 says that \<^verbatim>\<open>Loss.add_pre_pro(func)\<close> returns without raising, and leaves the
  object unchanged, for every argument that is neither callable nor one of the four names
  of \<open>method_dict\<close>.  An argument that cannot be hashed, such as a list, makes
  \<^verbatim>\<open>method_dict.get(func)\<close> raise \<^verbatim>\<open>TypeError\<close>.
\<close>

theorem C10_unhashable_counterexample:
  "add_pre_pro \<lparr>loss_obj = Some Torch_NLLLoss, pre_pro = [Some squash]\<rparr> (Unhashable 0)
     = Inl TypeError"
  by (simp add: add_pre_pro_def)

text \<open>
  Claim C10 as amended.  \<^verbatim>\<open>Loss.add_pre_pro(func)\<close> appends exactly one element to
  \<^verbatim>\<open>pre_pro\<close> when \<open>func\<close> is callable or one of the strings \<^verbatim>\<open>"squash"\<close>,
  \<^verbatim>\<open>"unpad"\<close>, \<^verbatim>\<open>"unpad_mask"\<close>, \<^verbatim>\<open>"mask"\<close>, the string being replaced by the
  function \<open>method_dict\<close> stores for it; for every other argument that can be hashed
  (another string, \<^verbatim>\<open>None\<close>, another hashable object) it returns without raising and
  leaves \<^verbatim>\<open>pre_pro\<close> and the rest of the object as they were.  For an argument that is
  not callable and cannot be hashed it raises \<^verbatim>\<open>TypeError\<close>.
\<close>

theorem C10_add_pre_pro_frame:
  "(case func of
      Callable f \<Rightarrow> add_pre_pro self func = Inr (self\<lparr>pre_pro := pre_pro self @ [Some f]\<rparr>)
    | Str name \<Rightarrow>
        if name \<in> set predefined_names
        then \<exists>f. dict_get method_dict name = Some f \<and>
               add_pre_pro self func = Inr (self\<lparr>pre_pro := pre_pro self @ [Some f]\<rparr>)
        else add_pre_pro self func = Inr self
    | Other v \<Rightarrow> add_pre_pro self func = Inr self
    | Unhashable u \<Rightarrow> add_pre_pro self func = Inl TypeError)"
  by (auto simp: add_pre_pro_def method_dict_def predefined_names_def split: pyarg.splits)

theorem C10_add_pre_pro_frame_witness:
  "add_pre_pro \<lparr>loss_obj = Some Torch_NLLLoss, pre_pro = [Some squash]\<rparr> (Str ''unpad_mask'')
     = Inr \<lparr>loss_obj = Some Torch_NLLLoss, pre_pro = [Some squash, Some unpad_mask]\<rparr>
   \<and> add_pre_pro \<lparr>loss_obj = Some Torch_NLLLoss, pre_pro = [Some squash]\<rparr> (Callable (UserFn 7))
     = Inr \<lparr>loss_obj = Some Torch_NLLLoss, pre_pro = [Some squash, Some (UserFn 7)]\<rparr>
   \<and> add_pre_pro \<lparr>loss_obj = Some Torch_NLLLoss, pre_pro = [Some squash]\<rparr> (Str ''flatten'')
     = Inr \<lparr>loss_obj = Some Torch_NLLLoss, pre_pro = [Some squash]\<rparr>
   \<and> add_pre_pro \<lparr>loss_obj = Some Torch_NLLLoss, pre_pro = [Some squash]\<rparr> (Other PyNone)
     = Inr \<lparr>loss_obj = Some Torch_NLLLoss, pre_pro = [Some squash]\<rparr>"
  using C10_add_pre_pro_frame [where func = "Str ''unpad_mask''" and self = "\<lparr>loss_obj = Some Torch_NLLLoss, pre_pro = [Some squash]\<rparr>"]
    C10_add_pre_pro_frame [where func = "Callable (UserFn 7)" and self = "\<lparr>loss_obj = Some Torch_NLLLoss, pre_pro = [Some squash]\<rparr>"]
    C10_add_pre_pro_frame [where func = "Str ''flatten''" and self = "\<lparr>loss_obj = Some Torch_NLLLoss, pre_pro = [Some squash]\<rparr>"]
    C10_add_pre_pro_frame [where func = "Other PyNone" and self = "\<lparr>loss_obj = Some Torch_NLLLoss, pre_pro = [Some squash]\<rparr>"]
  by (simp add: predefined_names_def method_dict_def)

end
